theory Spec2Isabelle
  imports Main
begin

section \<open>Data model (db/tables.ts)\<close>

text \<open>
  Every table is a list of rows in insertion order, except \<open>inventory\<close>: its
  \<open>variant_id\<close> column carries a unique index, so the table is a partial map from
  the variant to its \<open>stock_quantity\<close>. A \<open>uuid\<close> column is a natural number and
  a generated primary key (\<open>defaultRandom()\<close>) is drawn from the counter \<open>next_id\<close>.
  A \<open>timestamp\<close> is an integer number of milliseconds. The \<open>integer\<close> columns
  (\<open>stock_quantity\<close>, \<open>quantity\<close>) are 32-bit: they are read as \<open>int\<close>, all
  arithmetic on them is done by the store, and the store refuses a statement one of
  whose integer parameters or results is not \<open>int32\<close>; nothing wraps. The columns
  \<open>created_at\<close> and \<open>updated_at\<close>, and foreign keys, are left out: every handler
  below passes on ids of rows it has just read.
\<close>

type_synonym uuid = nat
type_synonym timestamp = int

definition int32 :: "int \<Rightarrow> bool" where
  "int32 x \<longleftrightarrow> - 2147483648 \<le> x \<and> x \<le> 2147483647"

datatype cart_status = Active | Ordered | Abandoned

datatype order_status = Pending | Paid | Failed | Cancelled | Returned | Refunded

datatype stripe_status =
  Initiated | Requires_payment_method | Succeeded | Payment_failed | Canceled

record reservation =
  r_id :: uuid
  r_cart_id :: uuid
  r_variant_id :: uuid
  r_quantity :: int
  r_expires_at :: timestamp

record variant =
  v_id :: uuid
  v_price :: string
  v_currency :: "string option"

text \<open>
  A cart item as the relational queries of the handlers return it
  (\<open>with: { items: { with: { variant: true } } }\<close>): the row together with the variant
  its \<open>variant_id\<close> references.
\<close>

record cart_item =
  ci_cart_id :: uuid
  ci_product_id :: uuid
  ci_variant_id :: uuid
  ci_quantity :: int
  ci_variant :: variant

record cart =
  c_id :: uuid
  c_session_id :: string
  c_status :: "cart_status option"
  c_expires_at :: timestamp

text \<open>
  The \<open>numeric\<close> money columns of an order and of a payment hold the amount in
  cents; the source writes them as \<open>(cents / 100).toFixed(2)\<close>.
\<close>

record order =
  o_id :: uuid
  o_cart_id :: uuid
  o_stripe_checkout_session_id :: "string option"
  o_stripe_payment_intent_id :: "string option"
  o_email :: "string option"
  o_customer_name :: "string option"
  o_shipping_name :: "string option"
  o_shipping_address_line1 :: "string option"
  o_shipping_address_line2 :: "string option"
  o_shipping_city :: "string option"
  o_shipping_state :: "string option"
  o_shipping_postal_code :: "string option"
  o_shipping_country :: "string option"
  o_subtotal :: "int option"
  o_shipping_cost :: "int option"
  o_total :: "int option"
  o_currency :: string
  o_status :: order_status

record order_item =
  oi_order_id :: uuid
  oi_product_id :: uuid
  oi_variant_id :: uuid
  oi_quantity :: int
  oi_unit_price :: string
  oi_currency :: string

record payment =
  p_order_id :: uuid
  p_status :: stripe_status
  p_stripe_checkout_session_id :: "string option"
  p_stripe_payment_intent_id :: string
  p_amount :: int
  p_currency :: string

record db =
  inventory :: "uuid \<rightharpoonup> int"
  reservations :: "reservation list"
  carts :: "cart list"
  cart_items :: "cart_item list"
  orders :: "order list"
  order_items :: "order_item list"
  payments :: "payment list"
  next_id :: nat

section \<open>Errors (errors.ts and the errors the store raises)\<close>

text \<open>
  \<open>AppError message statusCode\<close> is the class of errors.ts; its subclasses only fix
  the status code (\<open>new AppError(m)\<close> has status 500, here \<open>InternalError\<close>). A
  message is a fixed text, or the template
  \<open>Insufficient stock. Current: ${current}, Adjustment: ${adjust}\<close> with its two
  numbers. \<open>TransactionRollbackError\<close> is what \<open>tx.rollback()\<close> of the query
  builder throws (its return type is \<open>never\<close>); \<open>UniqueViolation\<close> is the store
  refusing an insert that would break the named unique index;
  \<open>NumericValueOutOfRange\<close> is the store refusing an integer that is not \<open>int32\<close>.
  The driver throws the store's errors to the caller of the statement.
\<close>

datatype message =
  Text string
  | Insufficient_stock int int

datatype error =
  AppError message nat
  | TransactionRollbackError
  | UniqueViolation string
  | NumericValueOutOfRange

definition BadRequestError :: "message \<Rightarrow> error" where
  "BadRequestError m = AppError m 400"

definition UnauthorizedError :: "message \<Rightarrow> error" where
  "UnauthorizedError m = AppError m 401"

definition NotFoundError :: "message \<Rightarrow> error" where
  "NotFoundError m = AppError m 404"

definition InternalError :: "message \<Rightarrow> error" where
  "InternalError m = AppError m 500"

section \<open>The store statements the handlers issue\<close>

text \<open>
  \<open>UPDATE inventory SET stock_quantity = f(stock_quantity)
     WHERE variant_id = v AND guard(stock_quantity) RETURNING *\<close>
  with the integer parameters \<open>params\<close> bound into \<open>f\<close> and \<open>guard\<close>: one statement.
  It throws when a parameter is not \<open>int32\<close>, and when the row it is to change
  would get a quantity that is not \<open>int32\<close>; the store is then as before the
  statement. Otherwise the result is the new quantity of the row it changed, or
  nothing when no row satisfied the condition.
\<close>

definition update_stock_where ::
  "uuid \<Rightarrow> int list \<Rightarrow> (int \<Rightarrow> bool) \<Rightarrow> (int \<Rightarrow> int) \<Rightarrow> db \<Rightarrow> (error + int option) \<times> db" where
  "update_stock_where v params guard f d =
     (if \<not> list_all int32 params then (Inl NumericValueOutOfRange, d)
      else
        (case inventory d v of
           None \<Rightarrow> (Inr None, d)
         | Some s \<Rightarrow>
             if guard s then
               (if int32 (f s)
                then (Inr (Some (f s)), d\<lparr>inventory := (inventory d)(v \<mapsto> f s)\<rparr>)
                else (Inl NumericValueOutOfRange, d))
             else (Inr None, d)))"

text \<open>
  \<open>db.transaction(body)\<close>: the body runs on the store; when it throws, the
  statements it issued are undone and the error is thrown on to the caller.
\<close>

definition transaction ::
  "(db \<Rightarrow> (error + 'a) \<times> db) \<Rightarrow> db \<Rightarrow> (error + 'a) \<times> db" where
  "transaction body d =
     (case body d of
        (Inl e, _) \<Rightarrow> (Inl e, d)
      | (Inr a, d') \<Rightarrow> (Inr a, d'))"

section \<open>lib/inventory.ts\<close>

record StockItem =
  variant_id :: uuid
  quantity :: int

datatype ReserveResult = Success | Declined uuid

definition insert_reservation :: "uuid \<Rightarrow> StockItem \<Rightarrow> timestamp \<Rightarrow> db \<Rightarrow> db" where
  "insert_reservation cartId item expiresAt d =
     d\<lparr>reservations := reservations d @
          [\<lparr>r_id = next_id d, r_cart_id = cartId, r_variant_id = variant_id item,
            r_quantity = quantity item, r_expires_at = expiresAt\<rparr>],
       next_id := Suc (next_id d)\<rparr>"

text \<open>
  The body of the transaction in \<open>reserveStock\<close>, one round of its loop per item.
  When the conditional update returns no row the source calls \<open>tx.rollback()\<close> and
  then has \<open>return { success: false, failed_variant_id }\<close>. The query builder
  declares \<open>rollback(): never\<close> and implements it by throwing
  \<open>TransactionRollbackError\<close>; \<open>db.transaction\<close> catches what its body throws,
  rolls the transaction back and throws it on. So the \<open>return\<close> after the call is
  never reached, and the result \<open>Declined\<close> of the type \<open>ReserveResult\<close> is never
  built.
\<close>

fun reserve_items ::
  "uuid \<Rightarrow> StockItem list \<Rightarrow> timestamp \<Rightarrow> db \<Rightarrow> (error + ReserveResult) \<times> db" where
  "reserve_items cartId [] expiresAt tx = (Inr Success, tx)"
| "reserve_items cartId (item # items) expiresAt tx =
     (case update_stock_where (variant_id item) [quantity item] (\<lambda>s. quantity item \<le> s)
             (\<lambda>s. s - quantity item) tx of
        (Inl e, tx1) \<Rightarrow> (Inl e, tx1)
      | (Inr None, tx1) \<Rightarrow> (Inl TransactionRollbackError, tx1)
      | (Inr (Some _), tx1) \<Rightarrow>
          reserve_items cartId items expiresAt (insert_reservation cartId item expiresAt tx1))"

definition reserveStock ::
  "db \<Rightarrow> uuid \<Rightarrow> StockItem list \<Rightarrow> timestamp \<Rightarrow> (error + ReserveResult) \<times> db" where
  "reserveStock d cartId items expiresAt = transaction (reserve_items cartId items expiresAt) d"

text \<open>
  \<open>restoreStockFromReservations\<close>: the reservations of the cart are read, and when
  there are any, one transaction adds the quantity of each to its unit's stock
  (\<open>restore_all\<close>, one round of the loop per row) and then deletes the cart's rows.
  An increment the store refuses throws out of the loop and the transaction is
  rolled back.
\<close>

fun restore_all :: "reservation list \<Rightarrow> db \<Rightarrow> (error + unit) \<times> db" where
  "restore_all [] tx = (Inr (), tx)"
| "restore_all (reservation # rs) tx =
     (case update_stock_where (r_variant_id reservation) [r_quantity reservation] (\<lambda>_. True)
             (\<lambda>s. s + r_quantity reservation) tx of
        (Inl e, tx1) \<Rightarrow> (Inl e, tx1)
      | (Inr _, tx1) \<Rightarrow> restore_all rs tx1)"

definition restoreStockFromReservations :: "db \<Rightarrow> uuid \<Rightarrow> (error + unit) \<times> db" where
  "restoreStockFromReservations d cartId =
     (let rs = filter (\<lambda>r. r_cart_id r = cartId) (reservations d) in
      if rs = [] then (Inr (), d)
      else
        transaction
          (\<lambda>tx. case restore_all rs tx of
                   (Inl e, tx1) \<Rightarrow> (Inl e, tx1)
                 | (Inr _, tx1) \<Rightarrow>
                     (Inr (), tx1\<lparr>reservations :=
                                    filter (\<lambda>r. r_cart_id r \<noteq> cartId) (reservations tx1)\<rparr>))
          d)"

definition clearReservations :: "db \<Rightarrow> uuid \<Rightarrow> db" where
  "clearReservations d cartId =
     d\<lparr>reservations := filter (\<lambda>r. r_cart_id r \<noteq> cartId) (reservations d)\<rparr>"

section \<open>The per-request event bag and the error handler (middleware)\<close>

text \<open>
  Of the event bag only \<open>event.error\<close> (its \<open>type\<close> and \<open>message\<close>) and
  \<open>event.unhandled_event\<close> are kept; the other keys are log output that no
  handler reads back.
\<close>

record event =
  ev_error :: "(string \<times> string) option"
  ev_unhandled_event :: "string option"

datatype response_body =
  Received bool
  | Message_body string
  | Error_body message
  | Inventory_body uuid int
  | Checkout_body string string

datatype http_response = Json response_body nat

text \<open>
  \<open>errorHandler\<close> (middleware/error.ts) on an error thrown by a handler: an
  \<open>AppError\<close> answers with its own status code, any other error is recorded as
  \<open>InternalServerError\<close> and answers 500.
\<close>

fun errorHandler :: "error \<Rightarrow> event \<Rightarrow> http_response \<times> event" where
  "errorHandler (AppError m statusCode) ev = (Json (Error_body m) statusCode, ev)"
| "errorHandler TransactionRollbackError ev =
     (Json (Error_body (Text ''Internal Server Error'')) 500,
      ev\<lparr>ev_error := Some (''InternalServerError'', ''Rollback'')\<rparr>)"
| "errorHandler (UniqueViolation idx) ev =
     (Json (Error_body (Text ''Internal Server Error'')) 500,
      ev\<lparr>ev_error := Some (''InternalServerError'', idx)\<rparr>)"
| "errorHandler NumericValueOutOfRange ev =
     (Json (Error_body (Text ''Internal Server Error'')) 500,
      ev\<lparr>ev_error := Some (''InternalServerError'', ''integer out of range'')\<rparr>)"

section \<open>routes/inventory/update-inventory.ts\<close>

text \<open>
  The request body after validation by \<open>UpdateInventorySchema\<close>. The schema itself
  (db/schemas.ts) is not part of the sources at hand; the handler relies on it for
  \<open>stock_quantity \<ge> 0\<close> (its comment: "Validation already handled by schema
  (min: 0)"), which the theorems below take as a hypothesis.
\<close>

record UpdateInventory =
  stock_quantity :: "int option"
  adjust :: "int option"

definition update_inventory ::
  "db \<Rightarrow> uuid \<Rightarrow> UpdateInventory \<Rightarrow> event \<Rightarrow> (error + http_response) \<times> db \<times> event" where
  "update_inventory d v body ev =
     (case inventory d v of
        None \<Rightarrow>
          (Inl (NotFoundError (Text ''Inventory not found'')), d,
           ev\<lparr>ev_error := Some (''NotFound'', ''Inventory not found'')\<rparr>)
      | Some existing \<Rightarrow>
          (case stock_quantity body of
             Some q \<Rightarrow>
               (case update_stock_where v [q] (\<lambda>_. True) (\<lambda>_. q) d of
                  (Inl e, d') \<Rightarrow> (Inl e, d', ev)
                | (Inr None, d') \<Rightarrow>
                    (Inl (InternalError (Text ''Failed to update inventory'')), d', ev)
                | (Inr (Some updated), d') \<Rightarrow>
                    (Inr (Json (Inventory_body v updated) 200), d', ev))
           | None \<Rightarrow>
               (case adjust body of
                  Some a \<Rightarrow>
                    if a < 0 then
                      (let requiredStock = \<bar>a\<bar> in
                       case update_stock_where v [a, requiredStock] (\<lambda>s. requiredStock \<le> s)
                              (\<lambda>s. s + a) d of
                         (Inl e, d') \<Rightarrow> (Inl e, d', ev)
                       | (Inr None, d') \<Rightarrow>
                           (Inl (BadRequestError (Insufficient_stock existing a)), d',
                            ev\<lparr>ev_error :=
                                 Some (''BadRequest'', ''Insufficient stock for adjustment'')\<rparr>)
                       | (Inr (Some updated), d') \<Rightarrow>
                           (Inr (Json (Inventory_body v updated) 200), d', ev))
                    else
                      (case update_stock_where v [a] (\<lambda>_. True) (\<lambda>s. s + a) d of
                         (Inl e, d') \<Rightarrow> (Inl e, d', ev)
                       | (Inr None, d') \<Rightarrow>
                           (Inl (InternalError (Text ''Failed to update inventory'')), d', ev)
                       | (Inr (Some updated), d') \<Rightarrow>
                           (Inr (Json (Inventory_body v updated) 200), d', ev))
                | None \<Rightarrow>
                    (Inl (InternalError (Text ''Either stock_quantity or adjust must be provided'')),
                     d, ev))))"

section \<open>routes/reservations: cancel a reservation\<close>

definition cancel_reservation ::
  "db \<Rightarrow> uuid \<Rightarrow> event \<Rightarrow> (error + http_response) \<times> db \<times> event" where
  "cancel_reservation d reservation_id ev =
     (case find (\<lambda>r. r_id r = reservation_id) (reservations d) of
        None \<Rightarrow>
          (Inl (NotFoundError (Text ''Reservation not found'')), d,
           ev\<lparr>ev_error := Some (''NotFound'', ''Reservation not found'')\<rparr>)
      | Some reservation \<Rightarrow>
          (case transaction
                  (\<lambda>tx. case update_stock_where (r_variant_id reservation)
                                 [r_quantity reservation] (\<lambda>_. True)
                                 (\<lambda>s. s + r_quantity reservation) tx of
                           (Inl e, tx1) \<Rightarrow> (Inl e, tx1)
                         | (Inr _, tx1) \<Rightarrow>
                             (Inr (), tx1\<lparr>reservations :=
                                            filter (\<lambda>r. r_id r \<noteq> reservation_id)
                                              (reservations tx1)\<rparr>))
                  d of
             (Inl e, d') \<Rightarrow> (Inl e, d', ev)
           | (Inr _, d') \<Rightarrow>
               (Inr (Json (Message_body ''Reservation deleted and stock restored'') 200), d', ev)))"

section \<open>routes/cart/checkout.ts\<close>

text \<open>
  The answer of the payment provider to \<open>stripe.checkout.sessions.create\<close> is an
  input of the model: the call throws, or returns a session with its id and its
  optional redirect url. \<open>now\<close> is the clock.
\<close>

datatype stripe_create = Create_throws | Created string "string option"

text \<open>\<open>!checkoutSession.url\<close>: the url is missing or the empty string.\<close>

definition no_url :: "string option \<Rightarrow> bool" where
  "no_url url = (case url of None \<Rightarrow> True | Some u \<Rightarrow> u = [])"

definition thirty_minutes :: int where
  "thirty_minutes = 30 * 60 * 1000"

definition as_StockItem :: "cart_item \<Rightarrow> StockItem" where
  "as_StockItem item = \<lparr>variant_id = ci_variant_id item, quantity = ci_quantity item\<rparr>"

definition set_cart_expiry :: "uuid \<Rightarrow> timestamp \<Rightarrow> db \<Rightarrow> db" where
  "set_cart_expiry cartId t d =
     d\<lparr>carts := map (\<lambda>c. if c_id c = cartId then c\<lparr>c_expires_at := t\<rparr> else c) (carts d)\<rparr>"

definition set_cart_status :: "uuid \<Rightarrow> cart_status \<Rightarrow> db \<Rightarrow> cart list \<times> db" where
  "set_cart_status cartId st d =
     (map (\<lambda>c. c\<lparr>c_status := Some st\<rparr>) (filter (\<lambda>c. c_id c = cartId) (carts d)),
      d\<lparr>carts := map (\<lambda>c. if c_id c = cartId then c\<lparr>c_status := Some st\<rparr> else c) (carts d)\<rparr>)"

text \<open>
  \<open>INSERT INTO orders (cart_id, stripe_checkout_session_id, status)\<close>: the other
  columns take their defaults (currency \<open>usd\<close>); the unique indexes on \<open>cart_id\<close>
  and on \<open>stripe_checkout_session_id\<close> refuse a second row.
\<close>

definition insert_order :: "uuid \<Rightarrow> string \<Rightarrow> db \<Rightarrow> (error + order) \<times> db" where
  "insert_order cartId sessionId d =
     (if list_ex (\<lambda>row. o_cart_id row = cartId) (orders d)
      then (Inl (UniqueViolation ''orders_cart_id_unique''), d)
      else if list_ex (\<lambda>row. o_stripe_checkout_session_id row = Some sessionId) (orders d)
      then (Inl (UniqueViolation ''orders_checkout_session_idx''), d)
      else
        (let row = \<lparr>o_id = next_id d, o_cart_id = cartId,
                    o_stripe_checkout_session_id = Some sessionId,
                    o_stripe_payment_intent_id = None, o_email = None, o_customer_name = None,
                    o_shipping_name = None, o_shipping_address_line1 = None,
                    o_shipping_address_line2 = None, o_shipping_city = None,
                    o_shipping_state = None, o_shipping_postal_code = None,
                    o_shipping_country = None, o_subtotal = None, o_shipping_cost = None,
                    o_total = None, o_currency = ''usd'', o_status = Pending\<rparr>
         in (Inr row, d\<lparr>orders := orders d @ [row], next_id := Suc (next_id d)\<rparr>)))"

text \<open>
  The handler of \<open>POST /cart/checkout\<close>, step by step as in the source; a \<open>throw\<close>
  is the result \<open>Inl\<close>. Where the source awaits \<open>restoreStockFromReservations\<close>
  and then throws its own error, an error thrown by the release is the one that
  leaves the handler. The insert of the order returns the row it inserted or
  throws, so the source's branch for a missing row after the insert has no case
  here. The line items and shipping options only travel to the payment provider
  and are left out.
\<close>

definition checkout ::
  "stripe_create \<Rightarrow> timestamp \<Rightarrow> db \<Rightarrow> string option \<Rightarrow> event \<Rightarrow>
     (error + http_response) \<times> db \<times> event" where
  "checkout stripe now d x_session_id ev =
     (case x_session_id of
        None \<Rightarrow> (Inl (UnauthorizedError (Text ''Session ID required'')), d, ev)
      | Some sessionId \<Rightarrow>
        if sessionId = [] then (Inl (UnauthorizedError (Text ''Session ID required'')), d, ev)
        else
        (case find (\<lambda>c. c_session_id c = sessionId) (carts d) of
           None \<Rightarrow>
             (Inl (BadRequestError (Text ''Cart is empty'')), d,
              ev\<lparr>ev_error := Some (''BadRequest'', ''Cart is empty'')\<rparr>)
         | Some cart \<Rightarrow>
           (let items = filter (\<lambda>i. ci_cart_id i = c_id cart) (cart_items d) in
            if items = [] then
              (Inl (BadRequestError (Text ''Cart is empty'')), d,
               ev\<lparr>ev_error := Some (''BadRequest'', ''Cart is empty'')\<rparr>)
            else if c_expires_at cart < now then
              (Inl (BadRequestError (Text ''Cart has expired'')), d,
               ev\<lparr>ev_error := Some (''BadRequest'', ''Cart has expired'')\<rparr>)
            else
            (let d1 = set_cart_expiry (c_id cart) (now + thirty_minutes) d in
             if c_status cart \<noteq> Some Active then
               (Inl (BadRequestError (Text ''Cart already checked out'')), d1,
                ev\<lparr>ev_error := Some (''BadRequest'', ''Cart already checked out'')\<rparr>)
             else
             (let stockErrors =
                    filter (\<lambda>item. (case inventory d1 (ci_variant_id item) of
                                       None \<Rightarrow> 0 | Some s \<Rightarrow> s) < ci_quantity item) items in
              if stockErrors \<noteq> [] then
                (Inl (BadRequestError (Text ''Insufficient stock'')), d1,
                 ev\<lparr>ev_error := Some (''BadRequest'', ''Insufficient stock'')\<rparr>)
              else
              (let reservationExpiry = now + thirty_minutes in
               case reserveStock d1 (c_id cart) (map as_StockItem items) reservationExpiry of
                 (Inl e, d2) \<Rightarrow> (Inl e, d2, ev)
               | (Inr (Declined failed_variant_id), d2) \<Rightarrow>
                   (Inl (BadRequestError (Text ''Stock changed, please try again'')), d2,
                    ev\<lparr>ev_error := Some (''BadRequest'', ''Stock changed, please try again'')\<rparr>)
               | (Inr Success, d2) \<Rightarrow>
                 (case stripe of
                    Create_throws \<Rightarrow>
                      (case restoreStockFromReservations d2 (c_id cart) of
                         (Inl e, d3) \<Rightarrow> (Inl e, d3, ev)
                       | (Inr _, d3) \<Rightarrow>
                           (Inl (InternalError (Text ''Failed to create checkout session'')),
                            d3, ev))
                  | Created checkout_id url \<Rightarrow>
                    if no_url url then
                      (case restoreStockFromReservations d2 (c_id cart) of
                         (Inl e, d3) \<Rightarrow> (Inl e, d3, ev)
                       | (Inr _, d3) \<Rightarrow>
                           (Inl (InternalError (Text ''Checkout creating failed'')), d3, ev))
                    else
                    (case set_cart_status (c_id cart) Ordered d2 of
                       ([], d3) \<Rightarrow>
                         (case restoreStockFromReservations d3 (c_id cart) of
                            (Inl e, d4) \<Rightarrow> (Inl e, d4, ev)
                          | (Inr _, d4) \<Rightarrow>
                              (Inl (InternalError (Text ''Failed to update cart status'')), d4,
                               ev\<lparr>ev_error :=
                                    Some (''InsertionError'', ''Failed to create order'')\<rparr>))
                     | (updatedCart # _, d3) \<Rightarrow>
                       (case insert_order (c_id cart) checkout_id d3 of
                          (Inl e, d4) \<Rightarrow> (Inl e, d4, ev)
                        | (Inr row, d4) \<Rightarrow>
                            (Inr (Json (Checkout_body (case url of None \<Rightarrow> [] | Some u \<Rightarrow> u) checkout_id) 200),
                             d4, ev))))))))))"

section \<open>routes/webhooks/stripe.ts\<close>

text \<open>
  The fields of a \<open>Stripe.Checkout.Session\<close> the handlers read. The cart id of
  \<open>metadata.cart_id\<close> is absent (\<open>None\<close>, which also stands for the empty string
  that \<open>!cartId\<close> treats alike), or an id; amounts are cents.
\<close>

record session =
  s_id :: string
  s_metadata_cart_id :: "uuid option"
  s_payment_intent :: "string option"
  s_customer_email :: "string option"
  s_customer_name :: "string option"
  s_shipping_name :: "string option"
  s_shipping_line1 :: "string option"
  s_shipping_line2 :: "string option"
  s_shipping_city :: "string option"
  s_shipping_state :: "string option"
  s_shipping_postal_code :: "string option"
  s_shipping_country :: "string option"
  s_amount_subtotal :: "int option"
  s_amount_total :: "int option"
  s_shipping_cost_amount_total :: "int option"
  s_currency :: "string option"

text \<open>
  \<open>encryptField\<close>: a missing or empty value is stored as \<open>null\<close>, any other value
  as its ciphertext. \<open>encrypt\<close> (lib/crypto.ts) draws a fresh salt and iv on every
  call, so the function \<open>enc\<close> from plaintext to ciphertext is an input of each
  run of the handler.
\<close>

definition encryptField :: "(string \<Rightarrow> string) \<Rightarrow> string option \<Rightarrow> string option" where
  "encryptField enc v =
     (case v of None \<Rightarrow> None | Some x \<Rightarrow> if x = [] then None else Some (enc x))"

text \<open>\<open>amount ? (amount / 100).toFixed(2) : null\<close>: a missing or zero amount is \<open>null\<close>.\<close>

definition amount_or_null :: "int option \<Rightarrow> int option" where
  "amount_or_null a = (case a of None \<Rightarrow> None | Some n \<Rightarrow> if n = 0 then None else Some n)"

definition or_eur :: "string option \<Rightarrow> string" where
  "or_eur c = (case c of None \<Rightarrow> ''eur'' | Some x \<Rightarrow> x)"

text \<open>
  \<open>INSERT INTO payments\<close>: the unique indexes \<open>payments_checkout_session_idx\<close> and
  \<open>payments_payment_intent_idx\<close> refuse a row whose session id or payment intent id
  is already there.
\<close>

definition insert_payment :: "payment \<Rightarrow> db \<Rightarrow> (error + unit) \<times> db" where
  "insert_payment row d =
     (if list_ex (\<lambda>p. p_stripe_checkout_session_id p \<noteq> None \<and>
                       p_stripe_checkout_session_id p = p_stripe_checkout_session_id row)
           (payments d)
      then (Inl (UniqueViolation ''payments_checkout_session_idx''), d)
      else if list_ex (\<lambda>p. p_stripe_payment_intent_id p = p_stripe_payment_intent_id row)
                (payments d)
      then (Inl (UniqueViolation ''payments_payment_intent_idx''), d)
      else (Inr (), d\<lparr>payments := payments d @ [row]\<rparr>))"

definition paid_order :: "(string \<Rightarrow> string) \<Rightarrow> session \<Rightarrow> order \<Rightarrow> order" where
  "paid_order enc session row =
     row\<lparr>o_status := Paid,
         o_stripe_payment_intent_id := s_payment_intent session,
         o_email := encryptField enc (s_customer_email session),
         o_customer_name := encryptField enc (s_customer_name session),
         o_shipping_name := encryptField enc (s_shipping_name session),
         o_shipping_address_line1 := encryptField enc (s_shipping_line1 session),
         o_shipping_address_line2 := encryptField enc (s_shipping_line2 session),
         o_shipping_city := encryptField enc (s_shipping_city session),
         o_shipping_state := encryptField enc (s_shipping_state session),
         o_shipping_postal_code := encryptField enc (s_shipping_postal_code session),
         o_shipping_country := encryptField enc (s_shipping_country session),
         o_subtotal := amount_or_null (s_amount_subtotal session),
         o_total := amount_or_null (s_amount_total session),
         o_shipping_cost := amount_or_null (s_shipping_cost_amount_total session),
         o_currency := or_eur (s_currency session)\<rparr>"

definition as_order_item :: "uuid \<Rightarrow> cart_item \<Rightarrow> order_item" where
  "as_order_item orderId item =
     \<lparr>oi_order_id = orderId, oi_product_id = ci_product_id item,
      oi_variant_id = ci_variant_id item, oi_quantity = ci_quantity item,
      oi_unit_price = v_price (ci_variant item),
      oi_currency = or_eur (v_currency (ci_variant item))\<rparr>"

definition set_order_status :: "uuid \<Rightarrow> order_status \<Rightarrow> db \<Rightarrow> db" where
  "set_order_status orderId st d =
     d\<lparr>orders := map (\<lambda>row. if o_id row = orderId then row\<lparr>o_status := st\<rparr> else row)
                     (orders d)\<rparr>"

text \<open>
  The two settlement handlers. They return nothing; a failure they detect is
  written to the event bag and the handler returns normally. Their statements
  do not share a transaction and they catch nothing, so an error of the store
  leaves the handler and what was written before it stays.
\<close>

definition handleCheckoutCompleted ::
  "(string \<Rightarrow> string) \<Rightarrow> db \<Rightarrow> session \<Rightarrow> event \<Rightarrow> (error + unit) \<times> db \<times> event" where
  "handleCheckoutCompleted enc d session ev =
     (case s_metadata_cart_id session of
        None \<Rightarrow>
          (Inr (), d,
           ev\<lparr>ev_error := Some (''BadRequest'', ''Missing cart_id in session metadata'')\<rparr>)
      | Some cartId \<Rightarrow>
        (case find (\<lambda>row. o_stripe_checkout_session_id row = Some (s_id session)) (orders d) of
           None \<Rightarrow> (Inr (), d, ev\<lparr>ev_error := Some (''NotFound'', ''Order not found'')\<rparr>)
         | Some ord \<Rightarrow>
           (case find (\<lambda>c. c_id c = cartId) (carts d) of
              None \<Rightarrow> (Inr (), d, ev\<lparr>ev_error := Some (''NotFound'', ''Cart not found'')\<rparr>)
            | Some cart \<Rightarrow>
              (let items = filter (\<lambda>i. ci_cart_id i = c_id cart) (cart_items d);
                   d1 = d\<lparr>orders := map (\<lambda>row. if o_id row = o_id ord
                                                then paid_order enc session row else row)
                                        (orders d)\<rparr>;
                   orderItems = map (as_order_item (o_id ord)) items;
                   d2 = (if orderItems \<noteq> []
                         then d1\<lparr>order_items := order_items d1 @ orderItems\<rparr> else d1)
               in case s_payment_intent session of
                    None \<Rightarrow> (Inr (), clearReservations d2 cartId, ev)
                  | Some payment_intent \<Rightarrow>
                      if payment_intent = [] then (Inr (), clearReservations d2 cartId, ev)
                      else
                        (case insert_payment
                                \<lparr>p_order_id = o_id ord, p_status = Succeeded,
                                 p_stripe_checkout_session_id = Some (s_id session),
                                 p_stripe_payment_intent_id = payment_intent,
                                 p_amount = (case amount_or_null (s_amount_total session) of
                                               None \<Rightarrow> 0 | Some t \<Rightarrow> t),
                                 p_currency = or_eur (s_currency session)\<rparr> d2 of
                           (Inl e, d3) \<Rightarrow> (Inl e, d3, ev)
                         | (Inr _, d3) \<Rightarrow> (Inr (), clearReservations d3 cartId, ev))))))"

definition handleCheckoutExpired ::
  "db \<Rightarrow> session \<Rightarrow> event \<Rightarrow> (error + unit) \<times> db \<times> event" where
  "handleCheckoutExpired d session ev =
     (case s_metadata_cart_id session of
        None \<Rightarrow>
          (Inr (), d,
           ev\<lparr>ev_error := Some (''BadRequest'', ''Missing cart_id in session metadata'')\<rparr>)
      | Some cartId \<Rightarrow>
          (let d1 = (case find (\<lambda>row. o_stripe_checkout_session_id row = Some (s_id session))
                            (orders d) of
                       None \<Rightarrow> d
                     | Some ord \<Rightarrow> set_order_status (o_id ord) Failed d)
           in case restoreStockFromReservations d1 cartId of
                (Inl e, d2) \<Rightarrow> (Inl e, d2, ev)
              | (Inr _, d2) \<Rightarrow> (Inr (), snd (set_cart_status cartId Abandoned d2), ev)))"

text \<open>
  The webhook endpoint. The request carries the \<open>stripe-signature\<close> header; the
  environment carries \<open>STRIPE_WEBHOOK_SECRET\<close>; \<open>constructed\<close> is the outcome of
  \<open>stripe.webhooks.constructEventAsync\<close> on them: the verified event (its type and
  its session), or nothing when the signature does not verify and the call throws.
  An error thrown by a settlement handler is not caught by the endpoint and
  reaches \<open>errorHandler\<close>.
\<close>

record webhook_request =
  wr_signature :: "string option"
  wr_webhook_secret :: "string option"
  wr_constructed :: "(string \<times> session) option"

definition stripe_webhook ::
  "(string \<Rightarrow> string) \<Rightarrow> db \<Rightarrow> webhook_request \<Rightarrow> event \<Rightarrow>
     (error + http_response) \<times> db \<times> event" where
  "stripe_webhook enc d req ev =
     (if wr_signature req = None \<or> wr_signature req = Some [] then
        (Inr (Json (Message_body ''Missing stripe-signature header'') 400), d,
         ev\<lparr>ev_error := Some (''BadRequest'', ''Missing stripe-signature header'')\<rparr>)
      else if wr_webhook_secret req = None \<or> wr_webhook_secret req = Some [] then
        (Inr (Json (Message_body ''Webhook secret not configured'') 500), d,
         ev\<lparr>ev_error := Some (''ConfigError'', ''STRIPE_WEBHOOK_SECRET not configured'')\<rparr>)
      else
        (case wr_constructed req of
           None \<Rightarrow>
             (Inr (Json (Message_body ''Invalid webhook signature'') 400), d,
              ev\<lparr>ev_error := Some (''BadRequest'', ''Invalid webhook signature'')\<rparr>)
         | Some (type, session) \<Rightarrow>
             if type = ''checkout.session.completed'' then
               (case handleCheckoutCompleted enc d session ev of
                  (Inl e, d', ev') \<Rightarrow> (Inl e, d', ev')
                | (Inr _, d', ev') \<Rightarrow> (Inr (Json (Received True) 200), d', ev'))
             else if type = ''checkout.session.expired'' then
               (case handleCheckoutExpired d session ev of
                  (Inl e, d', ev') \<Rightarrow> (Inl e, d', ev')
                | (Inr _, d', ev') \<Rightarrow> (Inr (Json (Received True) 200), d', ev'))
             else
               (Inr (Json (Received True) 200), d, ev\<lparr>ev_unhandled_event := Some type\<rparr>)))"

text \<open>What the client of an endpoint receives: the handler's answer, or the answer
  \<open>errorHandler\<close> makes of the error it threw.\<close>

definition respond ::
  "(error + http_response) \<times> db \<times> event \<Rightarrow> http_response \<times> db \<times> event" where
  "respond r =
     (case r of
        (Inl e, d, ev) \<Rightarrow> (fst (errorHandler e ev), d, snd (errorHandler e ev))
      | (Inr a, d, ev) \<Rightarrow> (a, d, ev))"

section \<open>Notions used in the statements\<close>

subsection \<open>Reserving\<close>

text \<open>
  \<open>requested v items\<close> is the quantity the items ask of unit \<open>v\<close>. The item
  \<open>item\<close> passes the availability guard after the items \<open>before\<close> when the unit has
  an inventory row and its stock, less what the items before took of it, covers
  the quantity of \<open>item\<close>. \<open>reserved_db\<close> is the store a reservation of all items
  leaves: every stock reduced by what was requested of it, one new reservation
  row per item.
\<close>

definition requested :: "uuid \<Rightarrow> StockItem list \<Rightarrow> int" where
  "requested v items = sum_list (map quantity (filter (\<lambda>i. variant_id i = v) items))"

definition available :: "db \<Rightarrow> StockItem list \<Rightarrow> StockItem \<Rightarrow> bool" where
  "available d before item =
     (case inventory d (variant_id item) of
        None \<Rightarrow> False
      | Some s \<Rightarrow> quantity item \<le> s - requested (variant_id item) before)"

definition all_available :: "db \<Rightarrow> StockItem list \<Rightarrow> bool" where
  "all_available d items =
     list_all (\<lambda>k. available d (take k items) (items ! k)) [0..<length items]"

definition new_reservations ::
  "uuid \<Rightarrow> StockItem list \<Rightarrow> timestamp \<Rightarrow> nat \<Rightarrow> reservation list" where
  "new_reservations cartId items expiresAt n =
     map (\<lambda>(k, item). \<lparr>r_id = k, r_cart_id = cartId, r_variant_id = variant_id item,
                        r_quantity = quantity item, r_expires_at = expiresAt\<rparr>)
         (enumerate n items)"

definition reserved_db :: "db \<Rightarrow> uuid \<Rightarrow> StockItem list \<Rightarrow> timestamp \<Rightarrow> db" where
  "reserved_db d cartId items expiresAt =
     d\<lparr>inventory := (\<lambda>v. map_option (\<lambda>s. s - requested v items) (inventory d v)),
       reservations := reservations d @ new_reservations cartId items expiresAt (next_id d),
       next_id := next_id d + length items\<rparr>"

subsection \<open>Releasing\<close>

text \<open>
  \<open>released v rs\<close> is the quantity the reservation rows \<open>rs\<close> hold of unit \<open>v\<close>;
  \<open>restored_inventory rs stock\<close> is the inventory with these quantities added back.
\<close>

definition released :: "uuid \<Rightarrow> reservation list \<Rightarrow> int" where
  "released v rs = sum_list (map r_quantity (filter (\<lambda>r. r_variant_id r = v) rs))"

definition restored_inventory :: "reservation list \<Rightarrow> (uuid \<rightharpoonup> int) \<Rightarrow> (uuid \<rightharpoonup> int)" where
  "restored_inventory rs stock = (\<lambda>v. map_option (\<lambda>s. s + released v rs) (stock v))"

definition reservations_of :: "db \<Rightarrow> uuid \<Rightarrow> reservation list" where
  "reservations_of d cartId = filter (\<lambda>r. r_cart_id r = cartId) (reservations d)"

subsection \<open>The range of the integer columns\<close>

text \<open>
  \<open>stock_in_range\<close>: every stock quantity is a value the column can hold.
  \<open>rows_in_range rs\<close>: the quantities of the reservation rows \<open>rs\<close> are values the
  column can hold and are not negative. \<open>restorable d rs\<close>: adding the rows \<open>rs\<close>
  back leaves the stock of each of their units within the column, so the store
  accepts every increment of the release; \<open>released_db\<close> is the store this release
  of the cart leaves.
\<close>

definition stock_in_range :: "db \<Rightarrow> bool" where
  "stock_in_range d = (\<forall>v s. inventory d v = Some s \<longrightarrow> int32 s)"

definition rows_in_range :: "reservation list \<Rightarrow> bool" where
  "rows_in_range rs = list_all (\<lambda>r. 0 \<le> r_quantity r \<and> int32 (r_quantity r)) rs"

definition restorable :: "db \<Rightarrow> reservation list \<Rightarrow> bool" where
  "restorable d rs =
     list_all (\<lambda>r. case inventory d (r_variant_id r) of
                      None \<Rightarrow> True
                    | Some s \<Rightarrow> s + released (r_variant_id r) rs \<le> 2147483647) rs"

definition released_db :: "db \<Rightarrow> uuid \<Rightarrow> db" where
  "released_db d cartId =
     d\<lparr>inventory := restored_inventory (reservations_of d cartId) (inventory d),
       reservations := filter (\<lambda>r. r_cart_id r \<noteq> cartId) (reservations d)\<rparr>"

subsection \<open>The stock invariant and the operations on the stock\<close>

text \<open>
  An \<open>operation\<close> is one call of a function of lib/inventory.ts or one request to
  an endpoint. It is well formed when the quantities it brings are as the callers
  and the request schema make them: positive item quantities, an absolute stock
  that is not negative.
\<close>

definition stock_nonneg :: "db \<Rightarrow> bool" where
  "stock_nonneg d = (\<forall>v s. inventory d v = Some s \<longrightarrow> 0 \<le> s)"

definition quantities_positive :: "db \<Rightarrow> bool" where
  "quantities_positive d =
     (list_all (\<lambda>r. 0 < r_quantity r) (reservations d) \<and>
      list_all (\<lambda>i. 0 < ci_quantity i) (cart_items d))"

definition no_event :: event where
  "no_event = \<lparr>ev_error = None, ev_unhandled_event = None\<rparr>"

datatype operation =
  Reserve uuid "StockItem list" timestamp
  | Restore uuid
  | Clear uuid
  | Cancel uuid
  | Update uuid UpdateInventory
  | Checkout stripe_create timestamp "string option"
  | Webhook "string \<Rightarrow> string" webhook_request

fun well_formed :: "operation \<Rightarrow> bool" where
  "well_formed (Reserve cartId items expiresAt) = list_all (\<lambda>i. 0 < quantity i) items"
| "well_formed (Update v body) = (case stock_quantity body of None \<Rightarrow> True | Some q \<Rightarrow> 0 \<le> q)"
| "well_formed _ = True"

fun perform :: "operation \<Rightarrow> db \<Rightarrow> db" where
  "perform (Reserve cartId items expiresAt) d = snd (reserveStock d cartId items expiresAt)"
| "perform (Restore cartId) d = snd (restoreStockFromReservations d cartId)"
| "perform (Clear cartId) d = clearReservations d cartId"
| "perform (Cancel reservation_id) d = fst (snd (cancel_reservation d reservation_id no_event))"
| "perform (Update v body) d = fst (snd (update_inventory d v body no_event))"
| "perform (Checkout stripe now x_session_id) d = fst (snd (checkout stripe now d x_session_id no_event))"
| "perform (Webhook enc req) d = fst (snd (stripe_webhook enc d req no_event))"

definition consistent :: "db \<Rightarrow> bool" where
  "consistent d \<longleftrightarrow> stock_nonneg d \<and> quantities_positive d"

subsection \<open>Example data\<close>

text \<open>
  Two concrete stores for the examples. \<open>shop\<close>: five units of variant 1 in stock,
  and an active cart 10 of session \<open>s1\<close> holding two units of it. \<open>held_shop\<close>: the
  same shop once that cart has been checked out: two units are reserved, the cart
  is ordered and the order 101 waits for the payment of session \<open>cs_1\<close>.
\<close>

definition shirt :: variant where
  "shirt = \<lparr>v_id = 1, v_price = ''19.99'', v_currency = Some ''eur''\<rparr>"

definition shop :: db where
  "shop =
     \<lparr>inventory = [1 \<mapsto> 5],
      reservations = [],
      carts = [\<lparr>c_id = 10, c_session_id = ''s1'', c_status = Some Active, c_expires_at = 1000\<rparr>],
      cart_items = [\<lparr>ci_cart_id = 10, ci_product_id = 7, ci_variant_id = 1, ci_quantity = 2,
                     ci_variant = shirt\<rparr>],
      orders = [], order_items = [], payments = [], next_id = 100\<rparr>"

definition pending_order :: order where
  "pending_order =
     \<lparr>o_id = 101, o_cart_id = 10, o_stripe_checkout_session_id = Some ''cs_1'',
      o_stripe_payment_intent_id = None, o_email = None, o_customer_name = None,
      o_shipping_name = None, o_shipping_address_line1 = None,
      o_shipping_address_line2 = None, o_shipping_city = None, o_shipping_state = None,
      o_shipping_postal_code = None, o_shipping_country = None, o_subtotal = None,
      o_shipping_cost = None, o_total = None, o_currency = ''usd'', o_status = Pending\<rparr>"

definition held_shop :: db where
  "held_shop =
     \<lparr>inventory = [1 \<mapsto> 3],
      reservations = [\<lparr>r_id = 100, r_cart_id = 10, r_variant_id = 1, r_quantity = 2,
                       r_expires_at = 1800500\<rparr>],
      carts = [\<lparr>c_id = 10, c_session_id = ''s1'', c_status = Some Ordered,
                c_expires_at = 1800500\<rparr>],
      cart_items = [\<lparr>ci_cart_id = 10, ci_product_id = 7, ci_variant_id = 1, ci_quantity = 2,
                     ci_variant = shirt\<rparr>],
      orders = [pending_order], order_items = [], payments = [], next_id = 102\<rparr>"

text \<open>
  The session \<open>cs_1\<close> of that checkout as the payment provider reports it, and the
  same session without \<open>cart_id\<close> in its metadata. \<open>cipher\<close> stands for one run of
  \<open>encrypt\<close> in the examples.
\<close>

definition paid_session :: session where
  "paid_session =
     \<lparr>s_id = ''cs_1'', s_metadata_cart_id = Some 10, s_payment_intent = Some ''pi_1'',
      s_customer_email = Some ''ada@example.org'', s_customer_name = Some ''Ada'',
      s_shipping_name = Some ''Ada'', s_shipping_line1 = Some ''1 Main St'',
      s_shipping_line2 = None, s_shipping_city = Some ''Wien'', s_shipping_state = None,
      s_shipping_postal_code = Some ''1010'', s_shipping_country = Some ''AT'',
      s_amount_subtotal = Some 3998, s_amount_total = Some 3998,
      s_shipping_cost_amount_total = Some 0, s_currency = Some ''eur''\<rparr>"

definition stray_session :: session where
  "stray_session = paid_session\<lparr>s_metadata_cart_id := None\<rparr>"

definition cipher :: "string \<Rightarrow> string" where
  "cipher = rev"

subsection \<open>Settlement and checkout\<close>


text \<open>
  \<open>busy_shop\<close>: the shop while cart 10 still holds a reservation row of one unit
  from an earlier checkout request that is in flight.
\<close>

definition busy_shop :: db where
  "busy_shop =
     shop\<lparr>inventory := [1 \<mapsto> 5],
          reservations := [\<lparr>r_id = 90, r_cart_id = 10, r_variant_id = 1, r_quantity = 1,
                            r_expires_at = 900\<rparr>]\<rparr>"

text \<open>The steps of the checkout before the reservation all pass.\<close>

definition reaches_reservation :: "timestamp \<Rightarrow> db \<Rightarrow> string option \<Rightarrow> cart \<Rightarrow> bool" where
  "reaches_reservation now d x_session_id cart =
     (case x_session_id of
        None \<Rightarrow> False
      | Some sessionId \<Rightarrow>
          sessionId \<noteq> [] \<and>
          find (\<lambda>c. c_session_id c = sessionId) (carts d) = Some cart \<and>
          filter (\<lambda>i. ci_cart_id i = c_id cart) (cart_items d) \<noteq> [] \<and>
          now \<le> c_expires_at cart \<and>
          c_status cart = Some Active \<and>
          list_all (\<lambda>i. ci_quantity i \<le> (case inventory d (ci_variant_id i) of
                                              None \<Rightarrow> 0 | Some s \<Rightarrow> s))
            (filter (\<lambda>i. ci_cart_id i = c_id cart) (cart_items d)))"

definition cart_StockItems :: "db \<Rightarrow> cart \<Rightarrow> StockItem list" where
  "cart_StockItems d cart =
     map as_StockItem (filter (\<lambda>i. ci_cart_id i = c_id cart) (cart_items d))"

definition payment_fails :: "stripe_create \<Rightarrow> bool" where
  "payment_fails stripe =
     (case stripe of Create_throws \<Rightarrow> True | Created checkout_id url \<Rightarrow> no_url url)"

text \<open>
  \<open>doubled_shop\<close>: the shop when cart 10 holds two rows of three units of variant 1
  (the table \<open>cart_items\<close> has no unique index on cart and variant): each row alone
  is covered by the stock of five, both together are not.
\<close>

definition doubled_shop :: db where
  "doubled_shop =
     shop\<lparr>cart_items :=
            [\<lparr>ci_cart_id = 10, ci_product_id = 7, ci_variant_id = 1, ci_quantity = 3,
              ci_variant = shirt\<rparr>,
             \<lparr>ci_cart_id = 10, ci_product_id = 7, ci_variant_id = 1, ci_quantity = 3,
              ci_variant = shirt\<rparr>]\<rparr>"



text \<open>
  The store one run of the Completion settlement leaves when it runs to its end:
  the order paid, one order item per cart item, the payment record when the
  session has a payment intent, the cart's reservations cleared.
\<close>

definition payment_of :: "uuid \<Rightarrow> session \<Rightarrow> payment list" where
  "payment_of orderId session =
     (case s_payment_intent session of
        None \<Rightarrow> []
      | Some payment_intent \<Rightarrow>
          if payment_intent = [] then []
          else [\<lparr>p_order_id = orderId, p_status = Succeeded,
                 p_stripe_checkout_session_id = Some (s_id session),
                 p_stripe_payment_intent_id = payment_intent,
                 p_amount = (case amount_or_null (s_amount_total session) of
                               None \<Rightarrow> 0 | Some t \<Rightarrow> t),
                 p_currency = or_eur (s_currency session)\<rparr>])"

definition order_items_of :: "db \<Rightarrow> uuid \<Rightarrow> order \<Rightarrow> order_item list" where
  "order_items_of d cartId ord =
     map (as_order_item (o_id ord)) (filter (\<lambda>i. ci_cart_id i = cartId) (cart_items d))"

definition settled_db :: "(string \<Rightarrow> string) \<Rightarrow> db \<Rightarrow> session \<Rightarrow> uuid \<Rightarrow> order \<Rightarrow> db" where
  "settled_db enc d session cartId ord =
     d\<lparr>orders := map (\<lambda>row. if o_id row = o_id ord then paid_order enc session row else row)
                     (orders d),
       order_items := order_items d @ order_items_of d cartId ord,
       payments := payments d @ payment_of (o_id ord) session,
       reservations := filter (\<lambda>r. r_cart_id r \<noteq> cartId) (reservations d)\<rparr>"

text \<open>
  \<open>full_shop\<close>: \<open>held_shop\<close> after the stock of variant 1 has been set to the
  largest value the column holds, while the cart still holds its two units.
\<close>

definition full_shop :: db where
  "full_shop = held_shop\<lparr>inventory := [1 \<mapsto> 2147483647]\<rparr>"

text \<open>The store in which only the order of the session has been marked failed.\<close>

definition order_failed_db :: "db \<Rightarrow> session \<Rightarrow> db" where
  "order_failed_db d session =
     d\<lparr>orders :=
         (case find (\<lambda>row. o_stripe_checkout_session_id row = Some (s_id session)) (orders d) of
            None \<Rightarrow> orders d
          | Some ord \<Rightarrow>
              map (\<lambda>row. if o_id row = o_id ord then row\<lparr>o_status := Failed\<rparr> else row)
                (orders d))\<rparr>"


text \<open>\<open>busy_full_shop\<close>: \<open>busy_shop\<close> with the stock of variant 1 at the largest value.\<close>

definition busy_full_shop :: db where
  "busy_full_shop = busy_shop\<lparr>inventory := [1 \<mapsto> 2147483647]\<rparr>"

text \<open>
  The store a checkout leaves when the remote session could not be created and
  the release of the cart's reservations was accepted.
\<close>

definition compensated_db :: "timestamp \<Rightarrow> db \<Rightarrow> cart \<Rightarrow> db" where
  "compensated_db now d cart =
     (set_cart_expiry (c_id cart) (now + thirty_minutes) d)
       \<lparr>inventory := restored_inventory (reservations_of d (c_id cart)) (inventory d),
        reservations := filter (\<lambda>r. r_cart_id r \<noteq> c_id cart) (reservations d),
        next_id := next_id d + length (cart_StockItems d cart)\<rparr>"

definition payment_failure_text :: "stripe_create \<Rightarrow> string" where
  "payment_failure_text stripe =
     (case stripe of
        Create_throws \<Rightarrow> ''Failed to create checkout session''
      | Created checkout_id url \<Rightarrow> ''Checkout creating failed'')"



section \<open>Facts about reserving\<close>

lemma requested_Nil [simp]: "requested v [] = 0"
  by (simp add: requested_def)

lemma requested_Cons:
  "requested v (i # items) = (if variant_id i = v then quantity i else 0) + requested v items"
  by (simp add: requested_def)

lemma all_available_iff:
  "all_available d items \<longleftrightarrow> (\<forall>k<length items. available d (take k items) (items ! k))"
  by (auto simp: all_available_def list_all_iff)

lemma all_available_Nil [simp]: "all_available d []"
  by (simp add: all_available_iff)

lemma available_shift:
  assumes "inventory d (variant_id i) = Some s"
  shows "available (insert_reservation c i e
            (d\<lparr>inventory := (inventory d)(variant_id i \<mapsto> s - quantity i)\<rparr>)) before j
         \<longleftrightarrow> available d (i # before) j"
proof (cases "variant_id j = variant_id i")
  case True
  with assms show ?thesis
    by (auto simp: available_def insert_reservation_def requested_Cons)
next
  case False
  then have "variant_id i \<noteq> variant_id j" by simp
  with assms show ?thesis
    by (simp add: available_def insert_reservation_def requested_Cons split: option.splits)
qed

lemma all_available_Cons:
  "all_available d (i # items) \<longleftrightarrow>
     (\<exists>s. inventory d (variant_id i) = Some s \<and> quantity i \<le> s \<and>
          all_available (insert_reservation c i e
              (d\<lparr>inventory := (inventory d)(variant_id i \<mapsto> s - quantity i)\<rparr>)) items)"
proof -
  have split: "(\<forall>k<Suc n. P k) \<longleftrightarrow> P 0 \<and> (\<forall>k<n. P (Suc k))" for n and P :: "nat \<Rightarrow> bool"
    by (metis less_Suc_eq_0_disj)
  have head: "available d [] i \<longleftrightarrow> (\<exists>s. inventory d (variant_id i) = Some s \<and> quantity i \<le> s)"
    by (simp add: available_def split: option.splits)
  show ?thesis
  proof (cases "inventory d (variant_id i)")
    case None
    then show ?thesis
      by (simp add: all_available_iff split head)
  next
    case (Some s)
    show ?thesis
      using Some available_shift [OF Some, of c e]
      by (simp add: all_available_iff split head)
  qed
qed

lemma new_reservations_Cons:
  "new_reservations c (i # items) e n =
     \<lparr>r_id = n, r_cart_id = c, r_variant_id = variant_id i,
      r_quantity = quantity i, r_expires_at = e\<rparr> # new_reservations c items e (Suc n)"
  by (simp add: new_reservations_def)

lemma reserved_db_Nil: "reserved_db d c [] e = d"
  by (simp add: reserved_db_def new_reservations_def option.map_ident)

lemma reserved_db_Cons:
  assumes "inventory tx (variant_id i) = Some s"
  shows "reserved_db (insert_reservation c i e
            (tx\<lparr>inventory := (inventory tx)(variant_id i \<mapsto> s - quantity i)\<rparr>)) c items e
         = reserved_db tx c (i # items) e"
proof -
  have "(\<lambda>v. map_option (\<lambda>x. x - requested v items)
                (((inventory tx)(variant_id i \<mapsto> s - quantity i)) v))
        = (\<lambda>v. map_option (\<lambda>x. x - requested v (i # items)) (inventory tx v))"
    using assms by (auto simp: fun_eq_iff requested_Cons)
  then show ?thesis
    by (simp add: reserved_db_def insert_reservation_def new_reservations_Cons)
qed

lemma new_reservations_Nil [simp]: "new_reservations c [] e n = []"
  by (simp add: new_reservations_def)

lemma new_reservations_columns:
  "map r_expires_at (new_reservations c items e n) = replicate (length items) e"
  "map r_cart_id (new_reservations c items e n) = replicate (length items) c"
  "map r_variant_id (new_reservations c items e n) = map variant_id items"
  "map r_quantity (new_reservations c items e n) = map quantity items"
  "map r_id (new_reservations c items e n) = [n..<n + length items]"
  by (induction items arbitrary: n) (simp_all add: new_reservations_Cons upt_rec)

lemma requested_nonneg:
  "list_all (\<lambda>i. 0 \<le> quantity i) items \<Longrightarrow> 0 \<le> requested v items"
  by (induction items) (auto simp: requested_Cons)

lemma stock_in_range_update:
  "stock_in_range d \<Longrightarrow> stock_in_range (snd (update_stock_where v params guard f d))"
  by (auto simp: stock_in_range_def update_stock_where_def split: option.splits)

lemma stock_in_range_insert_reservation [simp]:
  "stock_in_range (insert_reservation c i e d) = stock_in_range d"
  by (simp add: stock_in_range_def insert_reservation_def)

lemma decrement_accepted:
  assumes "inventory tx v = Some s" and "q \<le> s" and "0 \<le> q" and "int32 s"
  shows "update_stock_where v [q] (\<lambda>s. q \<le> s) (\<lambda>s. s - q) tx
           = (Inr (Some (s - q)), tx\<lparr>inventory := (inventory tx)(v \<mapsto> s - q)\<rparr>)"
  using assms by (simp add: update_stock_where_def int32_def)

lemma decrement_declined:
  assumes "int32 q" and "inventory tx v = None \<or> (\<exists>s. inventory tx v = Some s \<and> \<not> q \<le> s)"
  shows "update_stock_where v [q] (\<lambda>s. q \<le> s) (\<lambda>s. s - q) tx = (Inr None, tx)"
  using assms by (auto simp: update_stock_where_def)

lemma reserve_items_success:
  assumes "all_available tx items" and "stock_in_range tx"
    and "list_all (\<lambda>i. 0 \<le> quantity i) items"
  shows "reserve_items c items e tx = (Inr Success, reserved_db tx c items e)"
  using assms
proof (induction items arbitrary: tx)
  case Nil
  show ?case
    by (simp add: reserved_db_Nil)
next
  case (Cons i items)
  from Cons.prems(1) obtain s where s: "inventory tx (variant_id i) = Some s" "quantity i \<le> s"
    and rest: "all_available (insert_reservation c i e
              (tx\<lparr>inventory := (inventory tx)(variant_id i \<mapsto> s - quantity i)\<rparr>)) items"
    using all_available_Cons [of tx i items c e] by blast
  have range: "int32 s"
    using Cons.prems(2) s(1) by (simp add: stock_in_range_def)
  have q: "0 \<le> quantity i" and qs: "list_all (\<lambda>i. 0 \<le> quantity i) items"
    using Cons.prems(3) by simp_all
  have step: "update_stock_where (variant_id i) [quantity i] (\<lambda>s. quantity i \<le> s)
                (\<lambda>s. s - quantity i) tx
              = (Inr (Some (s - quantity i)),
                 tx\<lparr>inventory := (inventory tx)(variant_id i \<mapsto> s - quantity i)\<rparr>)"
    using s q range by (rule decrement_accepted)
  have "stock_in_range (snd (update_stock_where (variant_id i) [quantity i]
          (\<lambda>s. quantity i \<le> s) (\<lambda>s. s - quantity i) tx))"
    using Cons.prems(2) by (rule stock_in_range_update)
  then have "stock_in_range (insert_reservation c i e
              (tx\<lparr>inventory := (inventory tx)(variant_id i \<mapsto> s - quantity i)\<rparr>))"
    by (simp add: step)
  from Cons.IH [OF rest this qs] show ?case
    using reserved_db_Cons [OF s(1), of c e items]
    by (simp add: step)
qed

lemma reserve_items_Success_state:
  "fst (reserve_items c items e tx) = Inr Success \<Longrightarrow>
     snd (reserve_items c items e tx) = reserved_db tx c items e"
proof (induction items arbitrary: tx)
  case Nil
  show ?case
    by (simp add: reserved_db_Nil)
next
  case (Cons i items)
  from Cons.prems obtain s where s: "inventory tx (variant_id i) = Some s"
    and step: "update_stock_where (variant_id i) [quantity i] (\<lambda>s. quantity i \<le> s)
                 (\<lambda>s. s - quantity i) tx
               = (Inr (Some (s - quantity i)),
                  tx\<lparr>inventory := (inventory tx)(variant_id i \<mapsto> s - quantity i)\<rparr>)"
    and rest: "fst (reserve_items c items e (insert_reservation c i e
              (tx\<lparr>inventory := (inventory tx)(variant_id i \<mapsto> s - quantity i)\<rparr>))) = Inr Success"
    by (auto simp: update_stock_where_def split: option.splits if_splits)
  from Cons.IH [OF rest] show ?case
    using reserved_db_Cons [OF s, of c e items]
    by (simp add: step)
qed

lemma reserve_items_failure:
  assumes "\<not> all_available tx items" and "stock_in_range tx"
    and "list_all (\<lambda>i. 0 \<le> quantity i \<and> int32 (quantity i)) items"
  shows "fst (reserve_items c items e tx) = Inl TransactionRollbackError"
  using assms
proof (induction items arbitrary: tx)
  case Nil
  then show ?case by simp
next
  case (Cons i items)
  have q: "0 \<le> quantity i" "int32 (quantity i)"
    and qs: "list_all (\<lambda>i. 0 \<le> quantity i \<and> int32 (quantity i)) items"
    using Cons.prems(3) by simp_all
  show ?case
  proof (cases "\<exists>s. inventory tx (variant_id i) = Some s \<and> quantity i \<le> s")
    case False
    then have "inventory tx (variant_id i) = None \<or>
               (\<exists>s. inventory tx (variant_id i) = Some s \<and> \<not> quantity i \<le> s)"
      by (cases "inventory tx (variant_id i)") auto
    with q(2) have "update_stock_where (variant_id i) [quantity i] (\<lambda>s. quantity i \<le> s)
                (\<lambda>s. s - quantity i) tx = (Inr None, tx)"
      by (rule decrement_declined)
    then show ?thesis by simp
  next
    case True
    then obtain s where s: "inventory tx (variant_id i) = Some s" "quantity i \<le> s"
      by blast
    have range: "int32 s"
      using Cons.prems(2) s(1) by (simp add: stock_in_range_def)
    have step: "update_stock_where (variant_id i) [quantity i] (\<lambda>s. quantity i \<le> s)
                  (\<lambda>s. s - quantity i) tx
                = (Inr (Some (s - quantity i)),
                   tx\<lparr>inventory := (inventory tx)(variant_id i \<mapsto> s - quantity i)\<rparr>)"
      using s q(1) range by (rule decrement_accepted)
    have "stock_in_range (snd (update_stock_where (variant_id i) [quantity i]
            (\<lambda>s. quantity i \<le> s) (\<lambda>s. s - quantity i) tx))"
      using Cons.prems(2) by (rule stock_in_range_update)
    then have range': "stock_in_range (insert_reservation c i e
                (tx\<lparr>inventory := (inventory tx)(variant_id i \<mapsto> s - quantity i)\<rparr>))"
      by (simp add: step)
    have "\<not> all_available (insert_reservation c i e
              (tx\<lparr>inventory := (inventory tx)(variant_id i \<mapsto> s - quantity i)\<rparr>)) items"
      using Cons.prems(1) s all_available_Cons [of tx i items c e] by simp
    from Cons.IH [OF this range' qs] show ?thesis
      by (simp add: step)
  qed
qed

lemma reserve_items_errors:
  "fst (reserve_items c items e tx) = Inr Success \<or>
   fst (reserve_items c items e tx) = Inl TransactionRollbackError \<or>
   fst (reserve_items c items e tx) = Inl NumericValueOutOfRange"
  by (induction items arbitrary: tx)
     (auto simp: update_stock_where_def split: option.splits)

lemma reserve_items_Success_available:
  "fst (reserve_items c items e tx) = Inr Success \<Longrightarrow> all_available tx items"
proof (induction items arbitrary: tx)
  case Nil
  show ?case by simp
next
  case (Cons i items)
  from Cons.prems obtain s where s: "inventory tx (variant_id i) = Some s" "quantity i \<le> s"
    and rest: "fst (reserve_items c items e (insert_reservation c i e
              (tx\<lparr>inventory := (inventory tx)(variant_id i \<mapsto> s - quantity i)\<rparr>))) = Inr Success"
    by (auto simp: update_stock_where_def split: option.splits if_splits)
  from Cons.IH [OF rest] s show ?case
    using all_available_Cons [of tx i items c e] by blast
qed

lemma reserveStock_rolls_back:
  "fst (reserveStock d c items e) \<noteq> Inr Success \<Longrightarrow> snd (reserveStock d c items e) = d"
  using reserve_items_errors [of c items e d]
  by (auto simp: reserveStock_def transaction_def split: prod.splits sum.splits)

lemma reserveStock_fst:
  "fst (reserveStock d c items e) = fst (reserve_items c items e d)"
  by (auto simp: reserveStock_def transaction_def split: prod.splits sum.splits)

section \<open>Facts about releasing\<close>

lemma released_Nil [simp]: "released v [] = 0"
  by (simp add: released_def)

lemma released_Cons:
  "released v (r # rs) = (if r_variant_id r = v then r_quantity r else 0) + released v rs"
  by (simp add: released_def)

lemma released_append: "released v (rs @ rs') = released v rs + released v rs'"
  by (simp add: released_def)

lemma restored_inventory_Nil [simp]: "restored_inventory [] stock = stock"
  by (simp add: restored_inventory_def fun_eq_iff option.map_ident)

lemma restored_inventory_Cons:
  "restored_inventory rs (restored_inventory [r] stock) = restored_inventory (r # rs) stock"
  by (auto simp: restored_inventory_def fun_eq_iff released_Cons option.map_comp comp_def
      intro!: option.map_cong)

lemma released_nonneg:
  "rows_in_range rs \<Longrightarrow> 0 \<le> released v rs"
  by (induction rs) (auto simp: released_Cons rows_in_range_def)

lemma released_other_units:
  "\<forall>r\<in>set rs. r_variant_id r \<noteq> v \<Longrightarrow> released v rs = 0"
  by (induction rs) (auto simp: released_Cons)

lemma restored_inventory_single:
  "inventory d (r_variant_id r) = Some s \<Longrightarrow>
   (inventory d)(r_variant_id r \<mapsto> s + r_quantity r) = restored_inventory [r] (inventory d)"
  by (auto simp: restored_inventory_def fun_eq_iff released_Cons option.map_ident)

lemma restored_inventory_no_row:
  "inventory d (r_variant_id r) = None \<Longrightarrow> restored_inventory [r] (inventory d) = inventory d"
  by (auto simp: restored_inventory_def fun_eq_iff released_Cons option.map_ident)

lemma increment_outcome:
  assumes "int32 q"
  shows "update_stock_where v [q] (\<lambda>_. True) (\<lambda>s. s + q) tx =
           (case inventory tx v of
              None \<Rightarrow> (Inr None, tx)
            | Some s \<Rightarrow>
                if int32 (s + q)
                then (Inr (Some (s + q)), tx\<lparr>inventory := (inventory tx)(v \<mapsto> s + q)\<rparr>)
                else (Inl NumericValueOutOfRange, tx))"
  using assms by (simp add: update_stock_where_def split: option.splits)

lemma restorable_Nil [simp]: "restorable d []"
  by (simp add: restorable_def)

lemma restorable_Cons:
  assumes "rows_in_range (r # rs)"
  shows "restorable d (r # rs) \<longleftrightarrow>
           (case inventory d (r_variant_id r) of
              None \<Rightarrow> restorable d rs
            | Some s \<Rightarrow>
                s + r_quantity r \<le> 2147483647 \<and>
                restorable (d\<lparr>inventory := (inventory d)(r_variant_id r \<mapsto> s + r_quantity r)\<rparr>) rs)"
proof (cases "inventory d (r_variant_id r)")
  case None
  then show ?thesis
    by (auto simp: restorable_def list_all_iff released_Cons split: option.splits)
next
  case (Some s)
  have rows: "rows_in_range rs"
    using assms by (simp add: rows_in_range_def)
  have nonneg: "0 \<le> released (r_variant_id r) rs"
    using rows by (rule released_nonneg)
  let ?top = "s + (r_quantity r + released (r_variant_id r) rs) \<le> 2147483647"
  let ?d1 = "d\<lparr>inventory := (inventory d)(r_variant_id r \<mapsto> s + r_quantity r)\<rparr>"
  have rest: "(\<forall>r'\<in>set rs. case inventory d (r_variant_id r') of
                  None \<Rightarrow> True
                | Some s' \<Rightarrow> s' + released (r_variant_id r') (r # rs) \<le> 2147483647)
              \<longleftrightarrow> restorable ?d1 rs"
  proof -
    have point: "(case inventory d (r_variant_id r') of
                    None \<Rightarrow> True
                  | Some s' \<Rightarrow> s' + released (r_variant_id r') (r # rs) \<le> 2147483647)
                 \<longleftrightarrow>
                 (case inventory ?d1 (r_variant_id r') of
                    None \<Rightarrow> True
                  | Some s' \<Rightarrow> s' + released (r_variant_id r') rs \<le> 2147483647)"
      for r' :: reservation
    proof (cases "r_variant_id r' = r_variant_id r")
      case True
      with Some show ?thesis
        by (simp add: released_Cons) linarith
    next
      case False
      then have "r_variant_id r \<noteq> r_variant_id r'"
        by simp
      then show ?thesis
        by (simp add: released_Cons split: option.splits)
    qed
    show ?thesis
      by (simp add: restorable_def list_all_iff point)
  qed
  have top: "restorable ?d1 rs \<Longrightarrow> s + r_quantity r \<le> 2147483647 \<Longrightarrow> ?top"
  proof (cases "\<forall>r'\<in>set rs. r_variant_id r' \<noteq> r_variant_id r")
    case True
    assume "s + r_quantity r \<le> 2147483647"
    with released_other_units [OF True] show ?top by simp
  next
    case False
    then obtain r' where r': "r' \<in> set rs" "r_variant_id r' = r_variant_id r"
      by blast
    assume "restorable ?d1 rs"
    with r' show ?top
      by (auto simp: restorable_def list_all_iff)
  qed
  have "restorable d (r # rs) \<longleftrightarrow> ?top \<and> restorable ?d1 rs"
    using Some rest by (simp add: restorable_def list_all_iff released_Cons)
  with Some nonneg top show ?thesis
    by auto
qed

lemma restore_all_ok:
  assumes "stock_in_range d" and "rows_in_range rs" and "restorable d rs"
  shows "restore_all rs d = (Inr (), d\<lparr>inventory := restored_inventory rs (inventory d)\<rparr>)"
  using assms
proof (induction rs arbitrary: d)
  case Nil
  show ?case by simp
next
  case (Cons r rs)
  have q: "0 \<le> r_quantity r" "int32 (r_quantity r)" and rows: "rows_in_range rs"
    using Cons.prems(2) by (simp_all add: rows_in_range_def)
  show ?case
  proof (cases "inventory d (r_variant_id r)")
    case None
    with Cons.prems(2,3) have "restorable d rs"
      by (simp add: restorable_Cons)
    from Cons.IH [OF Cons.prems(1) rows this] None q(2) show ?thesis
      using restored_inventory_Cons [of rs r "inventory d"]
      by (simp add: increment_outcome restored_inventory_no_row)
  next
    case (Some s)
    let ?d1 = "d\<lparr>inventory := (inventory d)(r_variant_id r \<mapsto> s + r_quantity r)\<rparr>"
    from Some Cons.prems(2,3) have fits: "s + r_quantity r \<le> 2147483647"
      and rest: "restorable ?d1 rs"
      by (simp_all add: restorable_Cons)
    have "int32 s"
      using Cons.prems(1) Some by (simp add: stock_in_range_def)
    with fits q(1) have new: "int32 (s + r_quantity r)"
      by (simp add: int32_def)
    have range: "stock_in_range ?d1"
      using Cons.prems(1) new by (simp add: stock_in_range_def)
    from Cons.IH [OF range rows rest] Some q(2) new show ?thesis
      using restored_inventory_Cons [of rs r "inventory d"]
      by (simp add: increment_outcome restored_inventory_single)
  qed
qed

lemma restore_all_refused:
  assumes "stock_in_range d" and "rows_in_range rs" and "\<not> restorable d rs"
  shows "fst (restore_all rs d) = Inl NumericValueOutOfRange"
  using assms
proof (induction rs arbitrary: d)
  case Nil
  then show ?case by simp
next
  case (Cons r rs)
  have q: "0 \<le> r_quantity r" "int32 (r_quantity r)" and rows: "rows_in_range rs"
    using Cons.prems(2) by (simp_all add: rows_in_range_def)
  show ?case
  proof (cases "inventory d (r_variant_id r)")
    case None
    with Cons.prems(2,3) have "\<not> restorable d rs"
      by (simp add: restorable_Cons)
    from Cons.IH [OF Cons.prems(1) rows this] None q(2) show ?thesis
      by (simp add: increment_outcome)
  next
    case (Some s)
    let ?d1 = "d\<lparr>inventory := (inventory d)(r_variant_id r \<mapsto> s + r_quantity r)\<rparr>"
    have s: "int32 s"
      using Cons.prems(1) Some by (simp add: stock_in_range_def)
    show ?thesis
    proof (cases "s + r_quantity r \<le> 2147483647")
      case False
      then have "\<not> int32 (s + r_quantity r)"
        by (simp add: int32_def)
      with Some q(2) show ?thesis
        by (simp add: increment_outcome)
    next
      case True
      with s q(1) have new: "int32 (s + r_quantity r)"
        by (simp add: int32_def)
      have range: "stock_in_range ?d1"
        using Cons.prems(1) new by (simp add: stock_in_range_def)
      from True Some Cons.prems(2,3) have "\<not> restorable ?d1 rs"
        by (simp add: restorable_Cons)
      from Cons.IH [OF range rows this] Some q(2) new show ?thesis
        by (simp add: increment_outcome)
    qed
  qed
qed

lemma restore_all_frame:
  "reservations (snd (restore_all rs d)) = reservations d"
  "cart_items (snd (restore_all rs d)) = cart_items d"
  "carts (snd (restore_all rs d)) = carts d"
  "orders (snd (restore_all rs d)) = orders d"
  by (induction rs arbitrary: d)
     (auto simp: update_stock_where_def split: option.splits if_splits)

lemma restore_all_errors:
  "fst (restore_all rs d) = Inr () \<or> fst (restore_all rs d) = Inl NumericValueOutOfRange"
  by (induction rs arbitrary: d)
     (auto simp: update_stock_where_def split: option.splits if_splits)

lemma released_db_unreserved:
  "reservations_of d c = [] \<Longrightarrow> released_db d c = d"
proof -
  assume none: "reservations_of d c = []"
  then have "filter (\<lambda>r. r_cart_id r \<noteq> c) (reservations d) = reservations d"
    by (auto simp: reservations_of_def filter_empty_conv filter_id_conv)
  with none show ?thesis
    by (simp add: released_db_def)
qed

lemma restoreStockFromReservations_ok:
  assumes "stock_in_range d" and "rows_in_range (reservations_of d c)"
    and "restorable d (reservations_of d c)"
  shows "restoreStockFromReservations d c = (Inr (), released_db d c)"
proof (cases "reservations_of d c = []")
  case True
  then show ?thesis
    using released_db_unreserved [OF True]
    by (simp add: restoreStockFromReservations_def reservations_of_def)
next
  case False
  with restore_all_ok [OF assms] show ?thesis
    by (simp add: restoreStockFromReservations_def reservations_of_def transaction_def
        released_db_def)
qed

lemma restoreStockFromReservations_refused:
  assumes "stock_in_range d" and "rows_in_range (reservations_of d c)"
    and "\<not> restorable d (reservations_of d c)"
  shows "restoreStockFromReservations d c = (Inl NumericValueOutOfRange, d)"
proof -
  have "reservations_of d c \<noteq> []"
    using assms(3) by auto
  with restore_all_refused [OF assms] show ?thesis
    by (auto simp: restoreStockFromReservations_def reservations_of_def transaction_def
        split: prod.splits sum.splits)
qed

lemma restoreStockFromReservations_outcome:
  "restoreStockFromReservations d c = (Inl NumericValueOutOfRange, d) \<or>
   fst (restoreStockFromReservations d c) = Inr () \<and>
   reservations_of (snd (restoreStockFromReservations d c)) c = []"
proof (cases "reservations_of d c = []")
  case True
  then show ?thesis
    by (simp add: restoreStockFromReservations_def reservations_of_def)
next
  case False
  obtain r tx where run: "restore_all (reservations_of d c) d = (r, tx)"
    by (cases "restore_all (reservations_of d c) d")
  with restore_all_errors [of "reservations_of d c" d]
  have "r = Inr () \<or> r = Inl NumericValueOutOfRange"
    by simp
  with False run show ?thesis
    by (auto simp: restoreStockFromReservations_def reservations_of_def transaction_def
        filter_empty_conv)
qed

section \<open>Every operation keeps the stock invariant\<close>

lemma consistent_update_stock:
  assumes "consistent d" and "\<And>s. 0 \<le> s \<Longrightarrow> guard s \<Longrightarrow> 0 \<le> f s"
  shows "consistent (snd (update_stock_where v params guard f d))"
  using assms
  by (auto simp: consistent_def stock_nonneg_def quantities_positive_def update_stock_where_def
      split: option.splits)

lemma consistent_transaction:
  "consistent d \<Longrightarrow> consistent (snd (body d)) \<Longrightarrow> consistent (snd (transaction body d))"
  by (auto simp: transaction_def split: prod.splits sum.splits)

lemma consistent_insert_reservation:
  "consistent d \<Longrightarrow> 0 < quantity i \<Longrightarrow> consistent (insert_reservation c i e d)"
  by (simp add: consistent_def insert_reservation_def stock_nonneg_def quantities_positive_def)

lemma consistent_reserve_items:
  "consistent tx \<Longrightarrow> list_all (\<lambda>i. 0 < quantity i) items \<Longrightarrow>
   consistent (snd (reserve_items c items e tx))"
proof (induction items arbitrary: tx)
  case Nil
  then show ?case by simp
next
  case (Cons i items)
  obtain r tx1 where u: "update_stock_where (variant_id i) [quantity i] (\<lambda>s. quantity i \<le> s)
                            (\<lambda>s. s - quantity i) tx = (r, tx1)"
    by (cases "update_stock_where (variant_id i) [quantity i] (\<lambda>s. quantity i \<le> s)
                 (\<lambda>s. s - quantity i) tx")
  have "consistent (snd (update_stock_where (variant_id i) [quantity i] (\<lambda>s. quantity i \<le> s)
                            (\<lambda>s. s - quantity i) tx))"
    using Cons.prems(1) by (rule consistent_update_stock) simp
  then have tx1: "consistent tx1"
    by (simp add: u)
  show ?case
  proof (cases r)
    case (Inl e)
    with u tx1 show ?thesis by simp
  next
    case (Inr row)
    show ?thesis
    proof (cases row)
      case None
      with Inr u tx1 show ?thesis by simp
    next
      case (Some a)
      have "consistent (insert_reservation c i e tx1)"
        using tx1 Cons.prems(2) by (simp add: consistent_insert_reservation)
      from Cons.IH [OF this] Cons.prems(2) Some Inr u show ?thesis
        by simp
    qed
  qed
qed

lemma consistent_reserveStock:
  "consistent d \<Longrightarrow> list_all (\<lambda>i. 0 < quantity i) items \<Longrightarrow>
   consistent (snd (reserveStock d c items e))"
  unfolding reserveStock_def
  by (rule consistent_transaction) (simp_all add: consistent_reserve_items)

lemma consistent_restore_all:
  "consistent d \<Longrightarrow> list_all (\<lambda>r. 0 < r_quantity r) rs \<Longrightarrow>
   consistent (snd (restore_all rs d))"
proof (induction rs arbitrary: d)
  case Nil
  then show ?case by simp
next
  case (Cons r rs)
  obtain res tx1 where u: "update_stock_where (r_variant_id r) [r_quantity r] (\<lambda>_. True)
                            (\<lambda>s. s + r_quantity r) d = (res, tx1)"
    by (cases "update_stock_where (r_variant_id r) [r_quantity r] (\<lambda>_. True)
                 (\<lambda>s. s + r_quantity r) d")
  have "consistent (snd (update_stock_where (r_variant_id r) [r_quantity r] (\<lambda>_. True)
                            (\<lambda>s. s + r_quantity r) d))"
    using Cons.prems(1)
  proof (rule consistent_update_stock)
    fix s :: int
    assume "0 \<le> s"
    with Cons.prems(2) show "0 \<le> s + r_quantity r" by simp
  qed
  then have tx1: "consistent tx1"
    by (simp add: u)
  show ?case
  proof (cases res)
    case (Inl e)
    with u tx1 show ?thesis by simp
  next
    case (Inr row)
    from Cons.IH [OF tx1] Cons.prems(2) Inr u show ?thesis
      by simp
  qed
qed

lemma consistent_delete_reservations:
  "consistent d \<Longrightarrow> consistent (d\<lparr>reservations := filter P (reservations d)\<rparr>)"
  by (simp add: consistent_def stock_nonneg_def quantities_positive_def list_all_iff)

lemma consistent_restore:
  assumes "consistent d"
  shows "consistent (snd (restoreStockFromReservations d c))"
proof (cases "filter (\<lambda>r. r_cart_id r = c) (reservations d) = []")
  case True
  with assms show ?thesis
    by (simp add: restoreStockFromReservations_def)
next
  case False
  let ?rs = "filter (\<lambda>r. r_cart_id r = c) (reservations d)"
  have "list_all (\<lambda>r. 0 < r_quantity r) ?rs"
    using assms by (simp add: consistent_def quantities_positive_def list_all_iff)
  with assms have all: "consistent (snd (restore_all ?rs d))"
    by (rule consistent_restore_all)
  have "consistent (snd (transaction
          (\<lambda>tx. case restore_all ?rs tx of
                   (Inl e, tx1) \<Rightarrow> (Inl e, tx1)
                 | (Inr _, tx1) \<Rightarrow>
                     (Inr (), tx1\<lparr>reservations :=
                                    filter (\<lambda>r. r_cart_id r \<noteq> c) (reservations tx1)\<rparr>))
          d))"
    using assms
  proof (rule consistent_transaction)
    show "consistent (snd (case restore_all ?rs d of
                   (Inl e, tx1) \<Rightarrow> (Inl e, tx1)
                 | (Inr _, tx1) \<Rightarrow>
                     (Inr (), tx1\<lparr>reservations :=
                                    filter (\<lambda>r. r_cart_id r \<noteq> c) (reservations tx1)\<rparr>)))"
      using all
      by (auto split: prod.splits sum.splits intro: consistent_delete_reservations)
  qed
  with False show ?thesis
    by (simp add: restoreStockFromReservations_def)
qed

lemma consistent_clear:
  "consistent d \<Longrightarrow> consistent (clearReservations d c)"
  by (simp add: clearReservations_def consistent_delete_reservations)

lemma consistent_cancel:
  assumes "consistent d"
  shows "consistent (fst (snd (cancel_reservation d rid ev)))"
proof (cases "find (\<lambda>r. r_id r = rid) (reservations d)")
  case None
  with assms show ?thesis by (simp add: cancel_reservation_def)
next
  case (Some r)
  then have "r \<in> set (reservations d)"
    by (auto simp: find_Some_iff)
  then have pos: "0 < r_quantity r"
    using assms by (simp add: consistent_def quantities_positive_def list_all_iff)
  let ?body = "\<lambda>tx. case update_stock_where (r_variant_id r) [r_quantity r] (\<lambda>_. True)
                                 (\<lambda>s. s + r_quantity r) tx of
                           (Inl e, tx1) \<Rightarrow> (Inl e, tx1)
                         | (Inr _, tx1) \<Rightarrow>
                             (Inr (), tx1\<lparr>reservations :=
                                            filter (\<lambda>r. r_id r \<noteq> rid) (reservations tx1)\<rparr>)"
  have "consistent (snd (update_stock_where (r_variant_id r) [r_quantity r] (\<lambda>_. True)
                            (\<lambda>s. s + r_quantity r) d))"
    using assms
  proof (rule consistent_update_stock)
    fix s :: int
    assume "0 \<le> s"
    with pos show "0 \<le> s + r_quantity r" by simp
  qed
  then have "consistent (snd (?body d))"
    by (auto split: prod.splits sum.splits intro: consistent_delete_reservations)
  with assms have "consistent (snd (transaction ?body d))"
    by (rule consistent_transaction)
  then show ?thesis
    using Some
    by (auto simp: cancel_reservation_def split: prod.splits sum.splits)
qed

lemma consistent_update_inventory:
  assumes "consistent d" and "well_formed (Update v body)"
  shows "consistent (fst (snd (update_inventory d v body ev)))"
proof -
  have set: "\<And>q. 0 \<le> q \<Longrightarrow>
               consistent (snd (update_stock_where v [q] (\<lambda>_. True) (\<lambda>_. q) d))"
    using assms(1) by (rule consistent_update_stock)
  have neg: "\<And>a. consistent (snd (update_stock_where v [a, \<bar>a\<bar>] (\<lambda>s. \<bar>a\<bar> \<le> s)
                                   (\<lambda>s. s + a) d))"
    using assms(1) by (rule consistent_update_stock) simp
  have pos: "\<And>a. \<not> a < 0 \<Longrightarrow>
               consistent (snd (update_stock_where v [a] (\<lambda>_. True) (\<lambda>s. s + a) d))"
    using assms(1) by (rule consistent_update_stock) simp
  show ?thesis
  proof (cases "inventory d v")
    case None
    with assms(1) show ?thesis by (simp add: update_inventory_def)
  next
    case (Some existing)
    show ?thesis
    proof (cases "stock_quantity body")
      case (Some q)
      with assms(2) have "0 \<le> q" by simp
      from set [OF this] Some \<open>inventory d v = Some existing\<close> show ?thesis
        by (auto simp: update_inventory_def split: prod.splits option.splits sum.splits)
    next
      case None
      note sq = this
      show ?thesis
      proof (cases "adjust body")
        case None
        with sq \<open>inventory d v = Some existing\<close> assms(1) show ?thesis
          by (simp add: update_inventory_def)
      next
        case (Some a)
        show ?thesis
        proof (cases "a < 0")
          case True
          with neg [of a] Some sq \<open>inventory d v = Some existing\<close> show ?thesis
            by (auto simp: update_inventory_def Let_def
                split: prod.splits option.splits sum.splits)
        next
          case False
          with pos [of a] Some sq \<open>inventory d v = Some existing\<close> show ?thesis
            by (auto simp: update_inventory_def Let_def
                split: prod.splits option.splits sum.splits)
        qed
      qed
    qed
  qed
qed

lemma consistent_frame:
  "inventory d' = inventory d \<Longrightarrow> reservations d' = reservations d \<Longrightarrow>
   cart_items d' = cart_items d \<Longrightarrow> consistent d' = consistent d"
  by (simp add: consistent_def stock_nonneg_def quantities_positive_def)

lemma consistent_set_cart_expiry:
  "consistent (set_cart_expiry c t d) = consistent d"
  by (rule consistent_frame) (simp_all add: set_cart_expiry_def)

lemma consistent_set_cart_status:
  "set_cart_status c st d = (rows, d') \<Longrightarrow> consistent d' = consistent d"
  by (rule consistent_frame) (auto simp: set_cart_status_def)

lemma consistent_insert_order:
  "insert_order c sid d = (r, d') \<Longrightarrow> consistent d' = consistent d"
  by (rule consistent_frame) (auto simp: insert_order_def Let_def split: if_splits)

lemma consistent_insert_payment:
  "insert_payment row d = (r, d') \<Longrightarrow> consistent d' = consistent d"
  by (rule consistent_frame) (auto simp: insert_payment_def split: if_splits)

lemma consistent_set_order_status:
  "consistent (set_order_status oid st d) = consistent d"
  by (rule consistent_frame) (simp_all add: set_order_status_def)

lemma consistent_reserveStock_eq:
  "reserveStock d c items e = (r, d') \<Longrightarrow> consistent d \<Longrightarrow>
   list_all (\<lambda>i. 0 < quantity i) items \<Longrightarrow> consistent d'"
  using consistent_reserveStock [of d items c e] by simp

lemma cart_items_positive:
  assumes "consistent d"
  shows "list_all (\<lambda>i. 0 < quantity i)
           (map as_StockItem (filter (\<lambda>i. ci_cart_id i = c) (cart_items d)))"
  using assms
  by (simp add: consistent_def quantities_positive_def list_all_iff as_StockItem_def)

lemma consistent_restore_eq:
  "restoreStockFromReservations d c = (r, d') \<Longrightarrow> consistent d \<Longrightarrow> consistent d'"
  using consistent_restore [of d c] by simp

lemma consistent_checkout:
  assumes "consistent d"
  shows "consistent (fst (snd (checkout stripe now d x_session_id ev)))"
proof (cases "\<exists>sid cart. x_session_id = Some sid \<and> sid \<noteq> [] \<and>
                find (\<lambda>c. c_session_id c = sid) (carts d) = Some cart")
  case False
  with assms show ?thesis
    by (auto simp: checkout_def split: option.splits)
next
  case True
  then obtain sid cart where sid: "x_session_id = Some sid" "sid \<noteq> []"
    and cart: "find (\<lambda>c. c_session_id c = sid) (carts d) = Some cart"
    by blast
  let ?items = "filter (\<lambda>i. ci_cart_id i = c_id cart) (cart_items d)"
  let ?d1 = "set_cart_expiry (c_id cart) (now + thirty_minutes) d"
  have d1: "consistent ?d1"
    using assms by (simp add: consistent_set_cart_expiry)
  have pos: "list_all (\<lambda>i. 0 < quantity i) (map as_StockItem ?items)"
    using assms by (rule cart_items_positive)
  obtain r d2 where res: "reserveStock ?d1 (c_id cart) (map as_StockItem ?items)
                            (now + thirty_minutes) = (r, d2)"
    by (cases "reserveStock ?d1 (c_id cart) (map as_StockItem ?items) (now + thirty_minutes)")
  have d2: "consistent d2"
    using res d1 pos by (rule consistent_reserveStock_eq)
  obtain r2 d2' where restore: "restoreStockFromReservations d2 (c_id cart) = (r2, d2')"
    by (cases "restoreStockFromReservations d2 (c_id cart)")
  have d2': "consistent d2'"
    using restore d2 by (rule consistent_restore_eq)
  obtain rows d3 where st: "set_cart_status (c_id cart) Ordered d2 = (rows, d3)"
    by (cases "set_cart_status (c_id cart) Ordered d2")
  have d3: "consistent d3"
    using consistent_set_cart_status [OF st] d2 by simp
  obtain r3 d3' where restore3: "restoreStockFromReservations d3 (c_id cart) = (r3, d3')"
    by (cases "restoreStockFromReservations d3 (c_id cart)")
  have d3': "consistent d3'"
    using restore3 d3 by (rule consistent_restore_eq)
  obtain r4 d4 where ins: "insert_order (c_id cart)
                             (case stripe of Create_throws \<Rightarrow> [] | Created checkout_id url \<Rightarrow> checkout_id)
                             d3 = (r4, d4)"
    by (cases "insert_order (c_id cart)
                 (case stripe of Create_throws \<Rightarrow> [] | Created checkout_id url \<Rightarrow> checkout_id) d3")
  have d4: "consistent d4"
    using consistent_insert_order [OF ins] d3 by simp
  let ?stockErrors = "filter (\<lambda>item. (case inventory ?d1 (ci_variant_id item) of
                                       None \<Rightarrow> 0 | Some s \<Rightarrow> s) < ci_quantity item) ?items"
  show ?thesis
  proof (cases "?items = [] \<or> c_expires_at cart < now")
    case True
    with assms sid cart show ?thesis
      by (auto simp: checkout_def Let_def)
  next
    case False
    note early = this
    show ?thesis
    proof (cases "c_status cart \<noteq> Some Active \<or> ?stockErrors \<noteq> []")
      case True
      with early d1 sid cart show ?thesis
        by (auto simp: checkout_def Let_def)
    next
      case False
      note checks = this
      show ?thesis
      proof (cases r)
        case (Inl e)
        with early checks sid cart res d2 show ?thesis
          by (simp add: checkout_def Let_def)
      next
        case (Inr result)
        show ?thesis
        proof (cases result)
          case (Declined v)
          with Inr early checks sid cart res d2 show ?thesis
            by (simp add: checkout_def Let_def)
        next
          case Success
          show ?thesis
          proof (cases stripe)
            case Create_throws
            with Success Inr early checks sid cart res restore d2' show ?thesis
              by (cases r2) (simp_all add: checkout_def Let_def)
          next
            case (Created checkout_id url)
            show ?thesis
            proof (cases "no_url url")
              case True
              with Created Success Inr early checks sid cart res restore d2' show ?thesis
                by (cases r2) (simp_all add: checkout_def Let_def)
            next
              case False
              show ?thesis
              proof (cases rows)
                case Nil
                with False Created Success Inr early checks sid cart res st restore3 d3'
                show ?thesis
                  by (cases r3) (simp_all add: checkout_def Let_def)
              next
                case (Cons updatedCart rest)
                with False Created Success Inr early checks sid cart res st ins d4
                show ?thesis
                  by (cases r4) (simp_all add: checkout_def Let_def)
              qed
            qed
          qed
        qed
      qed
    qed
  qed
qed

lemma consistent_completed:
  assumes "consistent d"
  shows "consistent (fst (snd (handleCheckoutCompleted enc d session ev)))"
proof -
  have frame: "\<And>f g. consistent (d\<lparr>orders := f, order_items := g\<rparr>)"
              "\<And>f. consistent (d\<lparr>orders := f\<rparr>)"
    using assms by (simp_all add: consistent_def stock_nonneg_def quantities_positive_def)
  have pay: "\<And>row d0 r d'. consistent d0 \<Longrightarrow> insert_payment row d0 = (r, d') \<Longrightarrow> consistent d'"
    using consistent_insert_payment by blast
  show ?thesis
    using assms
    by (auto simp: handleCheckoutCompleted_def Let_def
        split: option.splits prod.splits sum.splits
        intro!: consistent_clear frame elim!: pay [rotated])
qed

lemma consistent_expired:
  assumes "consistent d"
  shows "consistent (fst (snd (handleCheckoutExpired d session ev)))"
proof (cases "s_metadata_cart_id session")
  case None
  with assms show ?thesis by (simp add: handleCheckoutExpired_def)
next
  case (Some cartId)
  let ?d1 = "case find (\<lambda>row. o_stripe_checkout_session_id row = Some (s_id session)) (orders d) of
               None \<Rightarrow> d | Some ord \<Rightarrow> set_order_status (o_id ord) Failed d"
  have d1: "consistent ?d1"
    using assms by (simp add: consistent_set_order_status split: option.splits)
  obtain r d2 where restore: "restoreStockFromReservations ?d1 cartId = (r, d2)"
    by (cases "restoreStockFromReservations ?d1 cartId")
  have d2: "consistent d2"
    using restore d1 by (rule consistent_restore_eq)
  then have "consistent (snd (set_cart_status cartId Abandoned d2))"
    using consistent_set_cart_status [OF surjective_pairing] by blast
  with Some restore d2 show ?thesis
    by (auto simp: handleCheckoutExpired_def Let_def split: sum.splits)
qed

lemma consistent_stripe_webhook:
  assumes "consistent d"
  shows "consistent (fst (snd (stripe_webhook enc d req ev)))"
proof -
  have "\<And>session r d' ev'. handleCheckoutCompleted enc d session ev = (r, d', ev') \<Longrightarrow>
          consistent d'"
    using consistent_completed [OF assms] by (metis fst_conv snd_conv)
  moreover have "\<And>session r d' ev'. handleCheckoutExpired d session ev = (r, d', ev') \<Longrightarrow>
          consistent d'"
    using consistent_expired [OF assms] by (metis fst_conv snd_conv)
  ultimately show ?thesis
    using assms
    by (auto simp: stripe_webhook_def split: option.splits prod.splits sum.splits)
qed

lemma consistent_perform:
  "consistent d \<Longrightarrow> well_formed op \<Longrightarrow> consistent (perform op d)"
proof (cases op)
  case (Reserve c items e)
  assume "consistent d" "well_formed op"
  with Reserve show ?thesis by (simp add: consistent_reserveStock)
next
  case (Restore c)
  assume "consistent d"
  with Restore show ?thesis by (simp add: consistent_restore)
next
  case (Clear c)
  assume "consistent d"
  with Clear show ?thesis by (simp add: consistent_clear)
next
  case (Cancel rid)
  assume "consistent d"
  with Cancel show ?thesis by (simp add: consistent_cancel)
next
  case (Update v body)
  assume "consistent d" "well_formed op"
  with Update show ?thesis using consistent_update_inventory [of d v body no_event] by simp
next
  case (Checkout stripe now sid)
  assume "consistent d"
  with Checkout show ?thesis by (simp add: consistent_checkout)
next
  case (Webhook enc req)
  assume "consistent d"
  with Webhook show ?thesis by (simp add: consistent_stripe_webhook)
qed

lemma consistent_fold_perform:
  "consistent d \<Longrightarrow> list_all well_formed ops \<Longrightarrow> consistent (fold perform ops d)"
  by (induction ops arbitrary: d) (simp_all add: consistent_perform)


section \<open>Facts about lookups\<close>

lemma find_map_same:
  "(\<And>x. P (f x) = P x) \<Longrightarrow> find P (map f xs) = map_option f (find P xs)"
  by (induction xs) simp_all

section \<open>The stock invariant\<close>

text \<open>
  Claim C2. From a store in which every unit's stock quantity is at least 0 and
  every reservation and cart item quantity is positive, every sequence of the
  operations that touch the stock (the conditional decrement of \<open>reserveStock\<close>, the
  increments of \<open>restoreStockFromReservations\<close> and of the reservation cancellation,
  an \<open>adjust\<close> of either sign, an absolute \<open>stock_quantity\<close> that is at least 0, and
  the checkout and webhook endpoints that call them), with positive item quantities,
  leaves every unit's stock quantity at least 0 after each operation of the sequence.
\<close>

theorem stock_never_negative:
  assumes "stock_nonneg d" and "quantities_positive d" and "list_all well_formed ops"
    and "n \<le> length ops"
  shows "stock_nonneg (fold perform (take n ops) d)"
proof -
  have "list_all well_formed (take n ops)"
    using assms(3) by (auto simp: list_all_iff dest: in_set_takeD)
  moreover have "consistent d"
    using assms(1,2) by (simp add: consistent_def)
  ultimately have "consistent (fold perform (take n ops) d)"
    by (simp add: consistent_fold_perform)
  then show ?thesis by (simp add: consistent_def)
qed

theorem stock_never_negative_witness:
  "stock_nonneg shop \<and> quantities_positive shop \<and>
   list_all well_formed
     [Reserve 10 [\<lparr>variant_id = 1, quantity = 4\<rparr>] 60,
      Update 1 \<lparr>stock_quantity = None, adjust = Some (- 3)\<rparr>,
      Cancel 100,
      Update 1 \<lparr>stock_quantity = Some 0, adjust = None\<rparr>] \<and>
   (3::nat) \<le> length
     [Reserve 10 [\<lparr>variant_id = 1, quantity = 4\<rparr>] 60,
      Update 1 \<lparr>stock_quantity = None, adjust = Some (- 3)\<rparr>,
      Cancel 100,
      Update 1 \<lparr>stock_quantity = Some 0, adjust = None\<rparr>] \<and>
   stock_nonneg (fold perform (take 3
     [Reserve 10 [\<lparr>variant_id = 1, quantity = 4\<rparr>] 60,
      Update 1 \<lparr>stock_quantity = None, adjust = Some (- 3)\<rparr>,
      Cancel 100,
      Update 1 \<lparr>stock_quantity = Some 0, adjust = None\<rparr>]) shop)"
proof -
  have a: "stock_nonneg shop"
    by (simp add: stock_nonneg_def shop_def)
  have b: "quantities_positive shop"
    by (simp add: quantities_positive_def shop_def)
  have c: "list_all well_formed
     [Reserve 10 [\<lparr>variant_id = 1, quantity = 4\<rparr>] 60,
      Update 1 \<lparr>stock_quantity = None, adjust = Some (- 3)\<rparr>,
      Cancel 100,
      Update 1 \<lparr>stock_quantity = Some 0, adjust = None\<rparr>]"
    by simp
  have e: "(3::nat) \<le> length
     [Reserve 10 [\<lparr>variant_id = 1, quantity = 4\<rparr>] 60,
      Update 1 \<lparr>stock_quantity = None, adjust = Some (- 3)\<rparr>,
      Cancel 100,
      Update 1 \<lparr>stock_quantity = Some 0, adjust = None\<rparr>]"
    by simp
  show ?thesis
    using a b c e stock_never_negative [OF a b c e] by blast
qed

section \<open>Reserving\<close>

text \<open>
  Claim C3. \<open>reserveStock\<close> is all or nothing. Whenever the call does not succeed
  it leaves the store as it was: no stock is decremented and no reservation row
  is added. Whenever it succeeds, every item has passed the guard, each unit's
  stock is decremented by the quantities requested for it and one reservation
  row per item is added, all with the given expiry. In particular, when some
  item of the list, the k-th, fails the availability guard (the stock left by
  the items before it is less than the quantity it asks for, or the unit has no
  inventory row) the store is unchanged and the call has thrown; with stock and
  quantities that the integer columns can hold, and no negative quantity, what
  it throws is the rollback of the transaction, and when every item passes the
  guard the call succeeds.
\<close>

theorem reserveStock_all_or_nothing:
  "(fst (reserveStock d cartId items expiresAt) \<noteq> Inr Success \<longrightarrow>
      snd (reserveStock d cartId items expiresAt) = d) \<and>
   (fst (reserveStock d cartId items expiresAt) = Inr Success \<longrightarrow>
      all_available d items \<and>
      snd (reserveStock d cartId items expiresAt) = reserved_db d cartId items expiresAt) \<and>
   (k < length items \<and> \<not> available d (take k items) (items ! k) \<longrightarrow>
      snd (reserveStock d cartId items expiresAt) = d \<and>
      (fst (reserveStock d cartId items expiresAt) = Inl TransactionRollbackError \<or>
       fst (reserveStock d cartId items expiresAt) = Inl NumericValueOutOfRange)) \<and>
   (k < length items \<and> \<not> available d (take k items) (items ! k) \<and> stock_in_range d \<and>
    list_all (\<lambda>i. 0 \<le> quantity i \<and> int32 (quantity i)) items \<longrightarrow>
      reserveStock d cartId items expiresAt = (Inl TransactionRollbackError, d)) \<and>
   (all_available d items \<and> stock_in_range d \<and> list_all (\<lambda>i. 0 \<le> quantity i) items \<longrightarrow>
      reserveStock d cartId items expiresAt = (Inr Success, reserved_db d cartId items expiresAt) \<and>
      map r_expires_at (new_reservations cartId items expiresAt (next_id d))
        = replicate (length items) expiresAt \<and>
      map r_variant_id (new_reservations cartId items expiresAt (next_id d))
        = map variant_id items \<and>
      map r_quantity (new_reservations cartId items expiresAt (next_id d))
        = map quantity items \<and>
      map r_cart_id (new_reservations cartId items expiresAt (next_id d))
        = replicate (length items) cartId)"
proof (intro conjI impI)
  assume "fst (reserveStock d cartId items expiresAt) \<noteq> Inr Success"
  then show "snd (reserveStock d cartId items expiresAt) = d"
    by (rule reserveStock_rolls_back)
next
  assume ok: "fst (reserveStock d cartId items expiresAt) = Inr Success"
  then show "all_available d items"
    using reserve_items_Success_available [of cartId items expiresAt d]
    by (simp add: reserveStock_fst)
  from ok have "fst (reserve_items cartId items expiresAt d) = Inr Success"
    by (simp add: reserveStock_fst)
  then show "snd (reserveStock d cartId items expiresAt) = reserved_db d cartId items expiresAt"
    using reserve_items_Success_state [of cartId items expiresAt d]
    by (auto simp: reserveStock_def transaction_def split: prod.splits sum.splits)
next
  assume "k < length items \<and> \<not> available d (take k items) (items ! k)"
  then have "\<not> all_available d items"
    by (auto simp: all_available_iff)
  then have no: "fst (reserveStock d cartId items expiresAt) \<noteq> Inr Success"
    using reserve_items_Success_available [of cartId items expiresAt d]
    by (auto simp: reserveStock_fst)
  then show "snd (reserveStock d cartId items expiresAt) = d"
    by (rule reserveStock_rolls_back)
  from no show "fst (reserveStock d cartId items expiresAt) = Inl TransactionRollbackError \<or>
       fst (reserveStock d cartId items expiresAt) = Inl NumericValueOutOfRange"
    using reserve_items_errors [of cartId items expiresAt d]
    by (simp add: reserveStock_fst)
next
  assume a: "k < length items \<and> \<not> available d (take k items) (items ! k) \<and> stock_in_range d \<and>
    list_all (\<lambda>i. 0 \<le> quantity i \<and> int32 (quantity i)) items"
  then have "\<not> all_available d items"
    by (auto simp: all_available_iff)
  with a have "fst (reserve_items cartId items expiresAt d) = Inl TransactionRollbackError"
    by (simp add: reserve_items_failure)
  then show "reserveStock d cartId items expiresAt = (Inl TransactionRollbackError, d)"
    by (auto simp: reserveStock_def transaction_def split: prod.splits sum.splits)
next
  assume "all_available d items \<and> stock_in_range d \<and> list_all (\<lambda>i. 0 \<le> quantity i) items"
  then show "reserveStock d cartId items expiresAt
               = (Inr Success, reserved_db d cartId items expiresAt)"
    by (simp add: reserveStock_def transaction_def reserve_items_success)
qed (simp_all add: new_reservations_columns)

theorem reserveStock_all_or_nothing_witness:
  "(1::nat) < length [\<lparr>variant_id = 1, quantity = 2\<rparr>, \<lparr>variant_id = 1, quantity = 4\<rparr>] \<and>
   \<not> available shop (take 1 [\<lparr>variant_id = 1, quantity = 2\<rparr>, \<lparr>variant_id = 1, quantity = 4\<rparr>])
        ([\<lparr>variant_id = 1, quantity = 2\<rparr>, \<lparr>variant_id = 1, quantity = 4\<rparr>] ! 1) \<and>
   stock_in_range shop \<and>
   list_all (\<lambda>i. 0 \<le> quantity i \<and> int32 (quantity i))
     [\<lparr>variant_id = 1, quantity = 2\<rparr>, \<lparr>variant_id = 1, quantity = 4\<rparr>] \<and>
   reserveStock shop 10 [\<lparr>variant_id = 1, quantity = 2\<rparr>, \<lparr>variant_id = 1, quantity = 4\<rparr>] 60
     = (Inl TransactionRollbackError, shop) \<and>
   all_available shop [\<lparr>variant_id = 1, quantity = 2\<rparr>, \<lparr>variant_id = 1, quantity = 3\<rparr>] \<and>
   list_all (\<lambda>i. 0 \<le> quantity i)
     [\<lparr>variant_id = 1, quantity = 2\<rparr>, \<lparr>variant_id = 1, quantity = 3\<rparr>] \<and>
   reserveStock shop 10 [\<lparr>variant_id = 1, quantity = 2\<rparr>, \<lparr>variant_id = 1, quantity = 3\<rparr>] 60
     = (Inr Success,
        reserved_db shop 10 [\<lparr>variant_id = 1, quantity = 2\<rparr>, \<lparr>variant_id = 1, quantity = 3\<rparr>] 60) \<and>
   inventory (reserved_db shop 10
       [\<lparr>variant_id = 1, quantity = 2\<rparr>, \<lparr>variant_id = 1, quantity = 3\<rparr>] 60) 1 = Some 0 \<and>
   reservations (reserved_db shop 10
       [\<lparr>variant_id = 1, quantity = 2\<rparr>, \<lparr>variant_id = 1, quantity = 3\<rparr>] 60)
     = [\<lparr>r_id = 100, r_cart_id = 10, r_variant_id = 1, r_quantity = 2, r_expires_at = 60\<rparr>,
        \<lparr>r_id = 101, r_cart_id = 10, r_variant_id = 1, r_quantity = 3, r_expires_at = 60\<rparr>]"
proof -
  let ?short = "[\<lparr>variant_id = 1, quantity = 2\<rparr>, \<lparr>variant_id = 1, quantity = (4::int)\<rparr>]"
  let ?exact = "[\<lparr>variant_id = 1, quantity = 2\<rparr>, \<lparr>variant_id = 1, quantity = (3::int)\<rparr>]"
  have k: "(1::nat) < length ?short"
    by simp
  have fails: "\<not> available shop (take 1 ?short) (?short ! 1)"
    by (simp add: available_def shop_def requested_def)
  have range: "stock_in_range shop"
    by (simp add: stock_in_range_def shop_def int32_def)
  have q1: "list_all (\<lambda>i. 0 \<le> quantity i \<and> int32 (quantity i)) ?short"
    by (simp add: int32_def)
  have q2: "list_all (\<lambda>i. 0 \<le> quantity i) ?exact"
    by simp
  have passes: "all_available shop ?exact"
    by (simp add: all_available_def available_def shop_def requested_def)
  have stock: "inventory (reserved_db shop 10 ?exact 60) 1 = Some 0"
    by (simp add: reserved_db_def shop_def requested_def)
  have rows: "reservations (reserved_db shop 10 ?exact 60)
     = [\<lparr>r_id = 100, r_cart_id = 10, r_variant_id = 1, r_quantity = 2, r_expires_at = 60\<rparr>,
        \<lparr>r_id = 101, r_cart_id = 10, r_variant_id = 1, r_quantity = 3, r_expires_at = 60\<rparr>]"
    by (simp add: reserved_db_def shop_def new_reservations_def)
  show ?thesis
    using k fails range q1 q2 passes stock rows
      reserveStock_all_or_nothing [of shop 10 ?short 60 1]
      reserveStock_all_or_nothing [of shop 10 ?exact 60 0]
    by blast
qed

section \<open>Releasing\<close>

text \<open>
  Claim C9, as the code has it. \<open>restoreStockFromReservations\<close> is idempotent on
  the store: run twice for a cart it leaves the store that one run leaves. A run
  either returns, and then the cart has no reservation row left, so that the
  second run finds none and returns without touching the store; or the store
  refuses an increment, and then the run throws, its transaction is rolled back
  and the store, reservation rows included, is as before, for the second run as
  for the first. With stock and quantities that the integer columns can hold and
  no negative quantity, the run returns exactly when adding the cart's reserved
  quantities keeps the stock of each of its units within the column; it then has
  raised each unit's stock by the quantities the cart had reserved of it, once.
  For a cart without reservations the call changes nothing.
\<close>

theorem restoreStockFromReservations_idempotent:
  "snd (restoreStockFromReservations (snd (restoreStockFromReservations d cartId)) cartId)
     = snd (restoreStockFromReservations d cartId) \<and>
   (fst (restoreStockFromReservations d cartId) = Inr () \<longrightarrow>
      reservations_of (snd (restoreStockFromReservations d cartId)) cartId = [] \<and>
      restoreStockFromReservations (snd (restoreStockFromReservations d cartId)) cartId
        = (Inr (), snd (restoreStockFromReservations d cartId))) \<and>
   (fst (restoreStockFromReservations d cartId) \<noteq> Inr () \<longrightarrow>
      restoreStockFromReservations d cartId = (Inl NumericValueOutOfRange, d)) \<and>
   (stock_in_range d \<and> rows_in_range (reservations_of d cartId) \<and>
    restorable d (reservations_of d cartId) \<longrightarrow>
      restoreStockFromReservations d cartId = (Inr (), released_db d cartId) \<and>
      inventory (released_db d cartId)
        = restored_inventory (reservations_of d cartId) (inventory d) \<and>
      reservations_of (released_db d cartId) cartId = []) \<and>
   (stock_in_range d \<and> rows_in_range (reservations_of d cartId) \<and>
    \<not> restorable d (reservations_of d cartId) \<longrightarrow>
      restoreStockFromReservations d cartId = (Inl NumericValueOutOfRange, d)) \<and>
   (reservations_of d cartId = [] \<longrightarrow> restoreStockFromReservations d cartId = (Inr (), d))"
proof -
  let ?r = "restoreStockFromReservations d cartId"
  have empty: "reservations_of d' cartId = [] \<Longrightarrow>
                 restoreStockFromReservations d' cartId = (Inr (), d')" for d'
    by (simp add: restoreStockFromReservations_def reservations_of_def)
  have returned: "fst ?r = Inr () \<Longrightarrow> reservations_of (snd ?r) cartId = []"
    using restoreStockFromReservations_outcome [of d cartId] by auto
  have thrown: "fst ?r \<noteq> Inr () \<Longrightarrow> ?r = (Inl NumericValueOutOfRange, d)"
    using restoreStockFromReservations_outcome [of d cartId] by auto
  have twice: "snd (restoreStockFromReservations (snd ?r) cartId) = snd ?r"
  proof (cases "fst ?r = Inr ()")
    case True
    from empty [OF returned [OF True]] show ?thesis by simp
  next
    case False
    from thrown [OF False] show ?thesis by simp
  qed
  have ok: "stock_in_range d \<and> rows_in_range (reservations_of d cartId) \<and>
            restorable d (reservations_of d cartId) \<Longrightarrow> ?r = (Inr (), released_db d cartId)"
    by (simp add: restoreStockFromReservations_ok)
  have refused: "stock_in_range d \<and> rows_in_range (reservations_of d cartId) \<and>
            \<not> restorable d (reservations_of d cartId) \<Longrightarrow> ?r = (Inl NumericValueOutOfRange, d)"
    by (simp add: restoreStockFromReservations_refused)
  have fields: "inventory (released_db d cartId)
                  = restored_inventory (reservations_of d cartId) (inventory d)"
    "reservations_of (released_db d cartId) cartId = []"
    by (simp_all add: released_db_def reservations_of_def filter_empty_conv)
  show ?thesis
    using twice returned thrown ok refused fields empty [of d] empty [of "snd ?r"]
    by blast
qed

theorem restoreStockFromReservations_idempotent_witness:
  "stock_in_range held_shop \<and> rows_in_range (reservations_of held_shop 10) \<and>
   restorable held_shop (reservations_of held_shop 10) \<and>
   restoreStockFromReservations held_shop 10 = (Inr (), released_db held_shop 10) \<and>
   restoreStockFromReservations (released_db held_shop 10) 10
     = (Inr (), released_db held_shop 10) \<and>
   inventory (released_db held_shop 10) 1 = Some 5 \<and>
   reservations (released_db held_shop 10) = [] \<and>
   stock_in_range full_shop \<and> rows_in_range (reservations_of full_shop 10) \<and>
   \<not> restorable full_shop (reservations_of full_shop 10) \<and>
   restoreStockFromReservations full_shop 10 = (Inl NumericValueOutOfRange, full_shop) \<and>
   reservations_of shop 10 = [] \<and>
   restoreStockFromReservations shop 10 = (Inr (), shop)"
proof -
  have a: "stock_in_range held_shop"
    by (simp add: stock_in_range_def held_shop_def int32_def)
  have b: "rows_in_range (reservations_of held_shop 10)"
    by (simp add: rows_in_range_def reservations_of_def held_shop_def int32_def)
  have c: "restorable held_shop (reservations_of held_shop 10)"
    by (simp add: restorable_def reservations_of_def held_shop_def released_def)
  have e: "inventory (released_db held_shop 10) 1 = Some 5"
    by (simp add: released_db_def reservations_of_def held_shop_def restored_inventory_def
        released_def)
  have f: "reservations (released_db held_shop 10) = []"
    by (simp add: released_db_def held_shop_def)
  have g: "stock_in_range full_shop"
    by (simp add: stock_in_range_def full_shop_def int32_def)
  have h: "rows_in_range (reservations_of full_shop 10)"
    by (simp add: rows_in_range_def reservations_of_def full_shop_def held_shop_def int32_def)
  have i: "\<not> restorable full_shop (reservations_of full_shop 10)"
    by (simp add: restorable_def reservations_of_def full_shop_def held_shop_def released_def)
  have j: "reservations_of shop 10 = []"
    by (simp add: reservations_of_def shop_def)
  have once: "restoreStockFromReservations held_shop 10 = (Inr (), released_db held_shop 10)"
    using a b c restoreStockFromReservations_idempotent [of held_shop 10] by blast
  have again: "restoreStockFromReservations (snd (restoreStockFromReservations held_shop 10)) 10
                 = (Inr (), snd (restoreStockFromReservations held_shop 10))"
    using once restoreStockFromReservations_idempotent [of held_shop 10] by simp
  have full: "restoreStockFromReservations full_shop 10 = (Inl NumericValueOutOfRange, full_shop)"
    using g h i restoreStockFromReservations_idempotent [of full_shop 10] by blast
  have none: "restoreStockFromReservations shop 10 = (Inr (), shop)"
    using j restoreStockFromReservations_idempotent [of shop 10] by blast
  show ?thesis
    using a b c e f g h i j once again full none by simp
qed

text \<open>
  The claim as first stated (the second run finds zero reservation rows, each
  unit's stock has been incremented by its reserved quantity) fails on
  \<open>full_shop\<close>: the increment of 2 on the stock 2147483647 is refused, the run
  throws, and after two runs the reservation row is still there and the stock is
  what it was.
\<close>

theorem restoreStockFromReservations_refused_counterexample:
  "inventory full_shop 1 = Some 2147483647 \<and>
   map r_quantity (reservations_of full_shop 10) = [2] \<and>
   fst (restoreStockFromReservations full_shop 10) = Inl NumericValueOutOfRange \<and>
   map r_quantity (reservations_of
       (snd (restoreStockFromReservations (snd (restoreStockFromReservations full_shop 10)) 10))
       10) = [2] \<and>
   inventory (snd (restoreStockFromReservations
       (snd (restoreStockFromReservations full_shop 10)) 10)) 1 = Some 2147483647"
proof -
  have run: "restoreStockFromReservations full_shop 10 = (Inl NumericValueOutOfRange, full_shop)"
    by (simp add: restoreStockFromReservations_def transaction_def update_stock_where_def
        int32_def full_shop_def held_shop_def)
  have stock: "inventory full_shop 1 = Some 2147483647"
    by (simp add: full_shop_def)
  have rows: "map r_quantity (reservations_of full_shop 10) = [2]"
    by (simp add: reservations_of_def full_shop_def held_shop_def)
  show ?thesis
    using stock rows by (simp add: run)
qed

section \<open>The inventory endpoint\<close>




section \<open>Settlement: expiration\<close>

lemma order_failed_db_frame [simp]:
  "inventory (order_failed_db d session) = inventory d"
  "reservations (order_failed_db d session) = reservations d"
  "reservations_of (order_failed_db d session) c = reservations_of d c"
  "stock_in_range (order_failed_db d session) = stock_in_range d"
  "restorable (order_failed_db d session) rs = restorable d rs"
  by (simp_all add: order_failed_db_def reservations_of_def stock_in_range_def restorable_def)






section \<open>Settlement: completion\<close>

text \<open>
  Claim C7, as the code has it: a Completion notification whose session id matches
  no order leaves the whole store unchanged (no stock, order, order item, payment
  or reservation is touched) and the handler returns normally after recording the
  failure in the event bag: \<open>NotFound\<close> (Order not found) when the session carries a
  cart id in its metadata, \<open>BadRequest\<close> (missing cart id) when it does not, since the
  cart id is checked before the order is looked up.
\<close>

theorem handleCheckoutCompleted_unknown_session:
  assumes "find (\<lambda>row. o_stripe_checkout_session_id row = Some (s_id session)) (orders d) = None"
  shows
    "(s_metadata_cart_id session = Some cartId \<longrightarrow>
        handleCheckoutCompleted enc d session ev
          = (Inr (), d, ev\<lparr>ev_error := Some (''NotFound'', ''Order not found'')\<rparr>)) \<and>
     (s_metadata_cart_id session = None \<longrightarrow>
        handleCheckoutCompleted enc d session ev
          = (Inr (), d,
             ev\<lparr>ev_error := Some (''BadRequest'', ''Missing cart_id in session metadata'')\<rparr>))"
  using assms by (simp add: handleCheckoutCompleted_def)

theorem handleCheckoutCompleted_unknown_session_witness:
  "find (\<lambda>row. o_stripe_checkout_session_id row = Some (s_id paid_session)) (orders shop) = None \<and>
   s_metadata_cart_id paid_session = Some 10 \<and>
   handleCheckoutCompleted cipher shop paid_session no_event
     = (Inr (), shop, no_event\<lparr>ev_error := Some (''NotFound'', ''Order not found'')\<rparr>)"
proof -
  have a: "find (\<lambda>row. o_stripe_checkout_session_id row = Some (s_id paid_session)) (orders shop)
             = None"
    by (simp add: shop_def)
  have b: "s_metadata_cart_id paid_session = Some 10"
    by (simp add: paid_session_def)
  show ?thesis
    using a b handleCheckoutCompleted_unknown_session [OF a, of 10 cipher no_event]
    by simp
qed

text \<open>
  The claim as first stated (the handler reports \<open>NotFound\<close>) fails on a session
  that matches no order and has no cart id: the failure recorded is \<open>BadRequest\<close>.
\<close>

theorem handleCheckoutCompleted_reports_bad_request_counterexample:
  "orders shop = [] \<and>
   ev_error (snd (snd (handleCheckoutCompleted cipher shop stray_session no_event)))
     = Some (''BadRequest'', ''Missing cart_id in session metadata'') \<and>
   ev_error (snd (snd (handleCheckoutCompleted cipher shop stray_session no_event)))
     \<noteq> Some (''NotFound'', ''Order not found'')"
  by (simp add: handleCheckoutCompleted_def shop_def stray_session_def paid_session_def)

section \<open>Checkout: compensation\<close>

lemma released_new_reservations:
  "released v (new_reservations c items e n) = requested v items"
  by (induction items arbitrary: n)
     (simp_all add: new_reservations_Cons released_Cons requested_Cons)

lemma filter_new_reservations:
  "filter (\<lambda>r. r_cart_id r = c) (new_reservations c items e n) = new_reservations c items e n"
  "filter (\<lambda>r. r_cart_id r \<noteq> c) (new_reservations c items e n) = []"
  by (induction items arbitrary: n) (simp_all add: new_reservations_Cons)

lemma all_available_inventory:
  "inventory d' = inventory d \<Longrightarrow> all_available d' items = all_available d items"
  by (simp add: all_available_def available_def)

lemma stock_in_range_reserve_items:
  "stock_in_range tx \<Longrightarrow> stock_in_range (snd (reserve_items c items e tx))"
proof (induction items arbitrary: tx)
  case Nil
  then show ?case by simp
next
  case (Cons i items)
  obtain r tx1 where u: "update_stock_where (variant_id i) [quantity i] (\<lambda>s. quantity i \<le> s)
                            (\<lambda>s. s - quantity i) tx = (r, tx1)"
    by (cases "update_stock_where (variant_id i) [quantity i] (\<lambda>s. quantity i \<le> s)
                 (\<lambda>s. s - quantity i) tx")
  have "stock_in_range (snd (update_stock_where (variant_id i) [quantity i]
          (\<lambda>s. quantity i \<le> s) (\<lambda>s. s - quantity i) tx))"
    using Cons.prems by (rule stock_in_range_update)
  then have tx1: "stock_in_range tx1"
    by (simp add: u)
  then have "stock_in_range (insert_reservation c i e tx1)"
    by simp
  from Cons.IH [OF this] tx1 u show ?case
    by (cases r) (auto split: option.splits)
qed

lemma rows_in_range_new_reservations:
  "rows_in_range (new_reservations c items e n)
     = list_all (\<lambda>i. 0 \<le> quantity i \<and> int32 (quantity i)) items"
  by (induction items arbitrary: n) (simp_all add: new_reservations_Cons rows_in_range_def)

lemma rows_in_range_append:
  "rows_in_range (rs @ rs') \<longleftrightarrow> rows_in_range rs \<and> rows_in_range rs'"
  by (simp add: rows_in_range_def)

lemma reservations_of_reserved_db:
  "reservations_of (reserved_db d c items e) c
     = reservations_of d c @ new_reservations c items e (next_id d)"
  by (simp add: reservations_of_def reserved_db_def filter_new_reservations)

lemma restorable_after_reserve:
  assumes range: "stock_in_range d"
  shows "restorable (reserved_db d c items e)
           (reservations_of d c @ new_reservations c items e (next_id d))
         \<longleftrightarrow> restorable d (reservations_of d c)"
proof -
  let ?stale = "reservations_of d c"
  let ?new = "new_reservations c items e (next_id d)"
  let ?cond = "\<lambda>r. case inventory d (r_variant_id r) of
                      None \<Rightarrow> True
                    | Some s \<Rightarrow> s + released (r_variant_id r) ?stale \<le> 2147483647"
  have point: "(case inventory (reserved_db d c items e) (r_variant_id r) of
                  None \<Rightarrow> True
                | Some s \<Rightarrow> s + released (r_variant_id r) (?stale @ ?new) \<le> 2147483647)
               \<longleftrightarrow> ?cond r" for r :: reservation
    by (cases "inventory d (r_variant_id r)")
       (simp_all add: reserved_db_def released_append released_new_reservations)
  have all: "restorable (reserved_db d c items e) (?stale @ ?new)
               \<longleftrightarrow> (\<forall>r\<in>set ?stale \<union> set ?new. ?cond r)"
    by (simp add: restorable_def list_all_iff point)
  have old: "restorable d ?stale \<longleftrightarrow> (\<forall>r\<in>set ?stale. ?cond r)"
    by (simp add: restorable_def list_all_iff)
  have new: "?cond r" if fits: "\<forall>r\<in>set ?stale. ?cond r" for r :: reservation
  proof (cases "inventory d (r_variant_id r)")
    case None
    then show ?thesis by simp
  next
    case (Some s)
    show ?thesis
    proof (cases "\<forall>r'\<in>set ?stale. r_variant_id r' \<noteq> r_variant_id r")
      case True
      have "int32 s"
        using range Some by (simp add: stock_in_range_def)
      with released_other_units [OF True] Some show ?thesis
        by (simp add: int32_def)
    next
      case False
      then obtain r' where r': "r' \<in> set ?stale" "r_variant_id r' = r_variant_id r"
        by blast
      with fits have "?cond r'"
        by blast
      with r'(2) Some show ?thesis
        by simp
    qed
  qed
  show ?thesis
    using all old new by blast
qed

lemma released_db_reserved_db:
  "released_db (reserved_db d c items e) c =
     d\<lparr>inventory := restored_inventory (reservations_of d c) (inventory d),
       reservations := filter (\<lambda>r. r_cart_id r \<noteq> c) (reservations d),
       next_id := next_id d + length items\<rparr>"
proof -
  have "restored_inventory (reservations_of d c @ new_reservations c items e (next_id d))
          (\<lambda>v. map_option (\<lambda>s. s - requested v items) (inventory d v))
        = restored_inventory (reservations_of d c) (inventory d)"
    by (auto simp: restored_inventory_def fun_eq_iff released_append released_new_reservations
        option.map_comp comp_def intro!: option.map_cong)
  then show ?thesis
    by (simp add: released_db_def reservations_of_reserved_db)
       (simp add: reserved_db_def filter_new_reservations)
qed

lemma checkout_payment_failure:
  assumes reach: "reaches_reservation now d x_session_id cart"
    and avail: "all_available d (cart_StockItems d cart)"
    and fails: "payment_fails stripe"
    and range: "stock_in_range d"
    and quantities: "list_all (\<lambda>i. 0 \<le> quantity i \<and> int32 (quantity i)) (cart_StockItems d cart)"
    and rows: "rows_in_range (reservations_of d (c_id cart))"
  shows "checkout stripe now d x_session_id ev =
           (if restorable d (reservations_of d (c_id cart))
            then (Inl (InternalError (Text (payment_failure_text stripe))),
                  compensated_db now d cart, ev)
            else (Inl NumericValueOutOfRange,
                  reserved_db (set_cart_expiry (c_id cart) (now + thirty_minutes) d) (c_id cart)
                    (cart_StockItems d cart) (now + thirty_minutes),
                  ev))"
proof -
  let ?d1 = "set_cart_expiry (c_id cart) (now + thirty_minutes) d"
  let ?items = "filter (\<lambda>i. ci_cart_id i = c_id cart) (cart_items d)"
  let ?D = "reserved_db ?d1 (c_id cart) (map as_StockItem ?items) (now + thirty_minutes)"
  from reach obtain sid where sid: "x_session_id = Some sid" "sid \<noteq> []"
    and cart: "find (\<lambda>c. c_session_id c = sid) (carts d) = Some cart"
    and items: "?items \<noteq> []"
    and fresh: "\<not> c_expires_at cart < now"
    and active: "c_status cart = Some Active"
    and enough: "list_all (\<lambda>i. ci_quantity i \<le> (case inventory d (ci_variant_id i) of
                                              None \<Rightarrow> 0 | Some s \<Rightarrow> s)) ?items"
    by (auto simp: reaches_reservation_def split: option.splits)
  have d1: "inventory ?d1 = inventory d" "reservations ?d1 = reservations d"
    "next_id ?d1 = next_id d" "cart_items ?d1 = cart_items d"
    "reservations_of ?d1 (c_id cart) = reservations_of d (c_id cart)"
    by (simp_all add: set_cart_expiry_def reservations_of_def)
  have range1: "stock_in_range ?d1"
    using range by (simp add: stock_in_range_def d1)
  have no_errors: "filter (\<lambda>item. (case inventory d (ci_variant_id item) of
                                       None \<Rightarrow> 0 | Some s \<Rightarrow> s) < ci_quantity item) ?items = []"
    using enough by (auto simp: filter_empty_conv list_all_iff)
  have nonneg: "list_all (\<lambda>i. 0 \<le> quantity i) (map as_StockItem ?items)"
    using quantities by (simp add: cart_StockItems_def list_all_iff)
  have "all_available ?d1 (map as_StockItem ?items)"
    using avail all_available_inventory [OF d1(1)] by (simp add: cart_StockItems_def)
  then have success: "reserve_items (c_id cart) (map as_StockItem ?items) (now + thirty_minutes) ?d1
                        = (Inr Success, ?D)"
    using range1 nonneg by (rule reserve_items_success)
  then have reserved: "reserveStock ?d1 (c_id cart) (map as_StockItem ?items)
                         (now + thirty_minutes) = (Inr Success, ?D)"
    by (simp add: reserveStock_def transaction_def)
  have "stock_in_range (snd (reserve_items (c_id cart) (map as_StockItem ?items)
                               (now + thirty_minutes) ?d1))"
    using range1 by (rule stock_in_range_reserve_items)
  then have rangeD: "stock_in_range ?D"
    by (simp add: success)
  have rowsD: "rows_in_range (reservations_of ?D (c_id cart))"
    using rows quantities
    by (simp add: reservations_of_reserved_db rows_in_range_append
        rows_in_range_new_reservations d1 cart_StockItems_def)
  have fitsD: "restorable ?D (reservations_of ?D (c_id cart))
                 \<longleftrightarrow> restorable d (reservations_of d (c_id cart))"
    using restorable_after_reserve [OF range1, of "c_id cart" "map as_StockItem ?items"
        "now + thirty_minutes"]
    by (simp add: reservations_of_reserved_db d1 restorable_def)
  have state: "released_db ?D (c_id cart) = compensated_db now d cart"
    by (simp add: released_db_reserved_db compensated_db_def d1 cart_StockItems_def)
  have release: "restoreStockFromReservations ?D (c_id cart)
                   = (if restorable d (reservations_of d (c_id cart))
                      then (Inr (), compensated_db now d cart)
                      else (Inl NumericValueOutOfRange, ?D))"
    using restoreStockFromReservations_ok [OF rangeD rowsD]
      restoreStockFromReservations_refused [OF rangeD rowsD] fitsD state
    by auto
  show ?thesis
    using sid cart items fresh active no_errors fails
    by (simp add: checkout_def Let_def d1 reserved release payment_fails_def
        payment_failure_text_def cart_StockItems_def split: stripe_create.splits)
qed

text \<open>
  Claim C5, as the code has it. When a checkout has passed its checks and
  reserved every item of the cart, and creating the remote payment session then
  throws, or returns a session without a redirect url,
  \<open>restoreStockFromReservations\<close> runs before the error is returned. The release
  is by cart, not by attempt. When the store accepts it, the cart is left without
  any reservation row, every unit's stock is its value before the reservation
  raised by the quantities of the reservation rows the cart already held before
  this attempt, and the error of the checkout (status 500) is returned. So when
  the cart held no reservation row before, every unit's stock is back to its
  value before the reservation and the reservation table is what it was. When
  the rows the cart already held would raise a stock beyond the 32-bit integer
  column, the store refuses the release: the error of the store is returned
  (status 500) and the reservation of this attempt stays in place, stock
  decremented and rows kept.
\<close>

theorem checkout_releases_on_payment_failure:
  assumes "reaches_reservation now d x_session_id cart"
    and "all_available d (cart_StockItems d cart)"
    and "payment_fails stripe"
    and "stock_in_range d"
    and "list_all (\<lambda>i. 0 \<le> quantity i \<and> int32 (quantity i)) (cart_StockItems d cart)"
    and "rows_in_range (reservations_of d (c_id cart))"
  shows
    "(restorable d (reservations_of d (c_id cart)) \<longrightarrow>
        checkout stripe now d x_session_id ev
          = (Inl (InternalError (Text (payment_failure_text stripe))),
             compensated_db now d cart, ev) \<and>
        fst (respond (checkout stripe now d x_session_id ev))
          = Json (Error_body (Text (payment_failure_text stripe))) 500 \<and>
        inventory (compensated_db now d cart)
          = restored_inventory (reservations_of d (c_id cart)) (inventory d) \<and>
        reservations_of (compensated_db now d cart) (c_id cart) = [] \<and>
        orders (compensated_db now d cart) = orders d) \<and>
     (reservations_of d (c_id cart) = [] \<longrightarrow>
        checkout stripe now d x_session_id ev
          = (Inl (InternalError (Text (payment_failure_text stripe))),
             compensated_db now d cart, ev) \<and>
        inventory (compensated_db now d cart) = inventory d \<and>
        reservations (compensated_db now d cart) = reservations d) \<and>
     (\<not> restorable d (reservations_of d (c_id cart)) \<longrightarrow>
        checkout stripe now d x_session_id ev
          = (Inl NumericValueOutOfRange,
             reserved_db (set_cart_expiry (c_id cart) (now + thirty_minutes) d) (c_id cart)
               (cart_StockItems d cart) (now + thirty_minutes),
             ev) \<and>
        fst (respond (checkout stripe now d x_session_id ev))
          = Json (Error_body (Text ''Internal Server Error'')) 500)"
proof -
  note result = checkout_payment_failure [OF assms, of ev]
  have none: "reservations_of d (c_id cart) = [] \<Longrightarrow>
          filter (\<lambda>r. r_cart_id r \<noteq> c_id cart) (reservations d) = reservations d"
    by (auto simp: reservations_of_def filter_empty_conv filter_id_conv)
  have fields: "inventory (compensated_db now d cart)
          = restored_inventory (reservations_of d (c_id cart)) (inventory d)"
    "reservations_of (compensated_db now d cart) (c_id cart) = []"
    "orders (compensated_db now d cart) = orders d"
    by (simp_all add: compensated_db_def reservations_of_def filter_empty_conv
        set_cart_expiry_def)
  have original: "reservations_of d (c_id cart) = [] \<Longrightarrow>
          inventory (compensated_db now d cart) = inventory d \<and>
          reservations (compensated_db now d cart) = reservations d"
    using none by (simp add: compensated_db_def)
  have ok: "restorable d (reservations_of d (c_id cart)) \<Longrightarrow>
          checkout stripe now d x_session_id ev
          = (Inl (InternalError (Text (payment_failure_text stripe))),
             compensated_db now d cart, ev) \<and>
          fst (respond (checkout stripe now d x_session_id ev))
          = Json (Error_body (Text (payment_failure_text stripe))) 500"
    by (simp add: result respond_def InternalError_def)
  have refused: "\<not> restorable d (reservations_of d (c_id cart)) \<Longrightarrow>
        checkout stripe now d x_session_id ev
          = (Inl NumericValueOutOfRange,
             reserved_db (set_cart_expiry (c_id cart) (now + thirty_minutes) d) (c_id cart)
               (cart_StockItems d cart) (now + thirty_minutes),
             ev) \<and>
        fst (respond (checkout stripe now d x_session_id ev))
          = Json (Error_body (Text ''Internal Server Error'')) 500"
    by (simp add: result respond_def)
  have trivial: "reservations_of d (c_id cart) = [] \<Longrightarrow> restorable d (reservations_of d (c_id cart))"
    by simp
  show ?thesis
    using ok refused fields original trivial by blast
qed

theorem checkout_releases_on_payment_failure_witness:
  "reaches_reservation 500 shop (Some ''s1'')
     \<lparr>c_id = 10, c_session_id = ''s1'', c_status = Some Active, c_expires_at = 1000\<rparr> \<and>
   all_available shop (cart_StockItems shop
     \<lparr>c_id = 10, c_session_id = ''s1'', c_status = Some Active, c_expires_at = 1000\<rparr>) \<and>
   payment_fails (Created ''cs_9'' None) \<and>
   stock_in_range shop \<and>
   reservations_of shop 10 = [] \<and>
   fst (respond (checkout (Created ''cs_9'' None) 500 shop (Some ''s1'') no_event))
     = Json (Error_body (Text ''Checkout creating failed'')) 500 \<and>
   inventory (fst (snd (checkout (Created ''cs_9'' None) 500 shop (Some ''s1'') no_event)))
     = inventory shop \<and>
   reservations (fst (snd (checkout (Created ''cs_9'' None) 500 shop (Some ''s1'') no_event)))
     = reservations shop \<and>
   reaches_reservation 500 busy_full_shop (Some ''s1'')
     \<lparr>c_id = 10, c_session_id = ''s1'', c_status = Some Active, c_expires_at = 1000\<rparr> \<and>
   stock_in_range busy_full_shop \<and>
   \<not> restorable busy_full_shop (reservations_of busy_full_shop 10) \<and>
   fst (respond (checkout Create_throws 500 busy_full_shop (Some ''s1'') no_event))
     = Json (Error_body (Text ''Internal Server Error'')) 500 \<and>
   inventory (fst (snd (checkout Create_throws 500 busy_full_shop (Some ''s1'') no_event))) 1
     = Some 2147483645 \<and>
   map r_quantity (reservations
       (fst (snd (checkout Create_throws 500 busy_full_shop (Some ''s1'') no_event)))) = [1, 2]"
proof -
  let ?cart = "\<lparr>c_id = 10, c_session_id = ''s1'', c_status = Some Active, c_expires_at = 1000\<rparr>"
  have a: "reaches_reservation 500 shop (Some ''s1'') ?cart"
    by (simp add: reaches_reservation_def shop_def)
  have b: "all_available shop (cart_StockItems shop ?cart)"
    by (simp add: all_available_def available_def cart_StockItems_def as_StockItem_def shop_def
        requested_def)
  have c: "payment_fails (Created ''cs_9'' None)"
    by (simp add: payment_fails_def no_url_def)
  have c': "payment_fails Create_throws"
    by (simp add: payment_fails_def)
  have e: "reservations_of shop 10 = []"
    by (simp add: reservations_of_def shop_def)
  have f: "stock_in_range shop"
    by (simp add: stock_in_range_def shop_def int32_def)
  have g: "list_all (\<lambda>i. 0 \<le> quantity i \<and> int32 (quantity i)) (cart_StockItems shop ?cart)"
    by (simp add: cart_StockItems_def as_StockItem_def shop_def int32_def)
  have h: "rows_in_range (reservations_of shop (c_id ?cart))"
    by (simp add: rows_in_range_def reservations_of_def shop_def)
  have wording: "payment_failure_text (Created ''cs_9'' None) = ''Checkout creating failed''"
    by (simp add: payment_failure_text_def)
  have a2: "reaches_reservation 500 busy_full_shop (Some ''s1'') ?cart"
    by (simp add: reaches_reservation_def busy_full_shop_def busy_shop_def shop_def)
  have b2: "all_available busy_full_shop (cart_StockItems busy_full_shop ?cart)"
    by (simp add: all_available_def available_def cart_StockItems_def as_StockItem_def
        busy_full_shop_def busy_shop_def shop_def requested_def)
  have f2: "stock_in_range busy_full_shop"
    by (simp add: stock_in_range_def busy_full_shop_def int32_def)
  have g2: "list_all (\<lambda>i. 0 \<le> quantity i \<and> int32 (quantity i))
              (cart_StockItems busy_full_shop ?cart)"
    by (simp add: cart_StockItems_def as_StockItem_def busy_full_shop_def busy_shop_def
        shop_def int32_def)
  have h2: "rows_in_range (reservations_of busy_full_shop (c_id ?cart))"
    by (simp add: rows_in_range_def reservations_of_def busy_full_shop_def busy_shop_def
        int32_def)
  have full: "\<not> restorable busy_full_shop (reservations_of busy_full_shop 10)"
    by (simp add: restorable_def reservations_of_def busy_full_shop_def busy_shop_def
        released_def)
  have stock: "inventory (reserved_db (set_cart_expiry 10 (500 + thirty_minutes) busy_full_shop)
                 10 (cart_StockItems busy_full_shop ?cart) (500 + thirty_minutes)) 1
               = Some 2147483645"
    by (simp add: reserved_db_def set_cart_expiry_def cart_StockItems_def as_StockItem_def
        busy_full_shop_def busy_shop_def shop_def requested_def)
  have kept: "map r_quantity (reservations
                (reserved_db (set_cart_expiry 10 (500 + thirty_minutes) busy_full_shop)
                 10 (cart_StockItems busy_full_shop ?cart) (500 + thirty_minutes))) = [1, 2]"
    by (simp add: reserved_db_def set_cart_expiry_def cart_StockItems_def as_StockItem_def
        busy_full_shop_def busy_shop_def shop_def new_reservations_def)
  show ?thesis
    using a b c e f wording a2 f2 full stock kept
      checkout_releases_on_payment_failure [OF a b c f g h, of no_event]
      checkout_releases_on_payment_failure [OF a2 b2 c' f2 g2 h2, of no_event]
    by (simp add: respond_def InternalError_def)
qed

text \<open>
  The claim as first stated (every unit reserved in the attempt is back to its
  value before the reservation) fails when the cart already holds a reservation
  row: in \<open>busy_shop\<close> the stock of unit 1 is 5 before the reservation and 6 after
  the failed checkout.
\<close>

theorem checkout_release_by_cart_counterexample:
  "inventory busy_shop 1 = Some 5 \<and>
   fst (checkout Create_throws 500 busy_shop (Some ''s1'') no_event)
     = Inl (InternalError (Text ''Failed to create checkout session'')) \<and>
   inventory (fst (snd (checkout Create_throws 500 busy_shop (Some ''s1'') no_event))) 1
     = Some 6"
  by (simp add: checkout_def reserveStock_def restoreStockFromReservations_def transaction_def
      update_stock_where_def int32_def insert_reservation_def set_cart_expiry_def
      as_StockItem_def busy_shop_def shop_def thirty_minutes_def Let_def)

section \<open>Reserving: the declined result\<close>

lemma reserve_items_never_declines:
  "fst (reserve_items c items e tx) \<noteq> Inr (Declined v)"
  by (induction items arbitrary: tx)
     (auto simp: update_stock_where_def split: option.splits)

text \<open>
  Claim C4 does not hold of the code. The claim: when an item fails the
  availability guard, \<open>reserveStock\<close> returns the declined result
  \<open>{ success: false, failed_variant_id }\<close> without raising, and the checkout then
  reports the conflicting unit (status 400, Stock changed). The code:
  \<open>tx.rollback()\<close> throws before the declined result is returned, so \<open>reserveStock\<close>
  raises \<open>TransactionRollbackError\<close> and never returns a declined result at all;
  the checkout's branch for it is dead, and the client receives status 500 with
  no unit named. What does hold: no remote session is created and nothing but the
  refreshed expiry of the cart is changed.
\<close>

theorem reserveStock_raises_instead_of_declining:
  "reserveStock shop 10 [\<lparr>variant_id = 1, quantity = 6\<rparr>] 60 = (Inl TransactionRollbackError, shop) \<and>
   fst (reserveStock d cartId items expiresAt) \<noteq> Inr (Declined v) \<and>
   respond (checkout (Created ''cs_9'' (Some ''https://pay.example/cs_9'')) 500 doubled_shop
              (Some ''s1'') no_event)
     = (Json (Error_body (Text ''Internal Server Error'')) 500,
        set_cart_expiry 10 1800500 doubled_shop,
        no_event\<lparr>ev_error := Some (''InternalServerError'', ''Rollback'')\<rparr>)"
proof (intro conjI)
  show "reserveStock shop 10 [\<lparr>variant_id = 1, quantity = 6\<rparr>] 60
          = (Inl TransactionRollbackError, shop)"
    by (simp add: reserveStock_def transaction_def update_stock_where_def int32_def shop_def)
next
  show "fst (reserveStock d cartId items expiresAt) \<noteq> Inr (Declined v)"
    using reserve_items_never_declines [of cartId items expiresAt d v]
    by (auto simp: reserveStock_def transaction_def split: prod.splits sum.splits)
next
  show "respond (checkout (Created ''cs_9'' (Some ''https://pay.example/cs_9'')) 500 doubled_shop
              (Some ''s1'') no_event)
     = (Json (Error_body (Text ''Internal Server Error'')) 500,
        set_cart_expiry 10 1800500 doubled_shop,
        no_event\<lparr>ev_error := Some (''InternalServerError'', ''Rollback'')\<rparr>)"
    by (simp add: respond_def checkout_def reserveStock_def transaction_def
        update_stock_where_def int32_def insert_reservation_def set_cart_expiry_def
        as_StockItem_def doubled_shop_def shop_def thirty_minutes_def Let_def)
qed

section \<open>The webhook endpoint\<close>








section \<open>Settlement: a notification delivered twice\<close>

lemma paid_order_fields [simp]:
  "o_id (paid_order enc session row) = o_id row"
  "o_stripe_checkout_session_id (paid_order enc session row) = o_stripe_checkout_session_id row"
  "o_status (paid_order enc session row) = Paid"
  "paid_order enc2 session (paid_order enc1 session row) = paid_order enc2 session row"
  by (simp_all add: paid_order_def)

lemma handleCheckoutCompleted_first:
  assumes cid: "s_metadata_cart_id session = Some cartId"
    and ord: "find (\<lambda>row. o_stripe_checkout_session_id row = Some (s_id session)) (orders d)
                = Some ord"
    and cart: "find (\<lambda>c. c_id c = cartId) (carts d) = Some cart"
    and returns: "fst (handleCheckoutCompleted enc d session ev) = Inr ()"
  shows "handleCheckoutCompleted enc d session ev
           = (Inr (), settled_db enc d session cartId ord, ev)"
proof -
  have c: "c_id cart = cartId"
    using cart by (auto simp: find_Some_iff)
  show ?thesis
    using returns
    by (auto simp: handleCheckoutCompleted_def cid ord cart c Let_def settled_db_def
        order_items_of_def payment_of_def insert_payment_def clearReservations_def
        split: option.splits if_splits)
qed

lemma handleCheckoutCompleted_second:
  assumes cid: "s_metadata_cart_id session = Some cartId"
    and ord: "find (\<lambda>row. o_stripe_checkout_session_id row = Some (s_id session)) (orders d)
                = Some ord"
    and cart: "find (\<lambda>c. c_id c = cartId) (carts d) = Some cart"
  shows "handleCheckoutCompleted enc2 (settled_db enc1 d session cartId ord) session ev
           = (if payment_of (o_id ord) session = [] then Inr ()
              else Inl (UniqueViolation ''payments_checkout_session_idx''),
              (settled_db enc1 d session cartId ord)
                \<lparr>orders := map (\<lambda>row. if o_id row = o_id ord then paid_order enc2 session row
                                       else row) (orders d),
                 order_items := order_items d @ order_items_of d cartId ord
                                  @ order_items_of d cartId ord\<rparr>,
              ev)"
proof -
  let ?P = "\<lambda>row. o_stripe_checkout_session_id row = Some (s_id session)"
  let ?f = "\<lambda>enc row. if o_id row = o_id ord then paid_order enc session row else row"
  let ?d1 = "settled_db enc1 d session cartId ord"
  have c: "c_id cart = cartId"
    using cart by (auto simp: find_Some_iff)
  have "find ?P (map (?f enc1) (orders d)) = map_option (?f enc1) (find ?P (orders d))"
    by (rule find_map_same) simp
  then have ord1: "find ?P (orders ?d1) = Some (paid_order enc1 session ord)"
    using ord by (simp add: settled_db_def)
  have cart1: "find (\<lambda>c. c_id c = cartId) (carts ?d1) = Some cart"
    using cart by (simp add: settled_db_def)
  have items1: "filter (\<lambda>i. ci_cart_id i = cartId) (cart_items ?d1)
                  = filter (\<lambda>i. ci_cart_id i = cartId) (cart_items d)"
    by (simp add: settled_db_def)
  have orders2: "map (\<lambda>row. if o_id row = o_id ord then paid_order enc2 session row else row)
                   (orders ?d1)
                 = map (?f enc2) (orders d)"
    by (simp add: settled_db_def)
  have again: "filter (\<lambda>r. r_cart_id r \<noteq> cartId) (reservations ?d1) = reservations ?d1"
    by (simp add: settled_db_def)
  show ?thesis
  proof (cases "payment_of (o_id ord) session = []")
    case True
    then show ?thesis
      using again
      by (auto simp: handleCheckoutCompleted_def cid ord1 cart1 c items1 orders2 Let_def
          order_items_of_def payment_of_def clearReservations_def
          split: option.splits if_splits)
         (simp_all add: settled_db_def order_items_of_def)
  next
    case False
    then obtain payment_intent where pi: "s_payment_intent session = Some payment_intent"
      "payment_intent \<noteq> []"
      by (auto simp: payment_of_def split: option.splits if_splits)
    have refused: "\<And>row d'. payments d' = payments ?d1 \<Longrightarrow>
        p_stripe_checkout_session_id row = Some (s_id session) \<Longrightarrow>
        insert_payment row d' = (Inl (UniqueViolation ''payments_checkout_session_idx''), d')"
      using pi by (simp add: insert_payment_def settled_db_def payment_of_def)
    show ?thesis
      using False pi
      by (simp add: handleCheckoutCompleted_def cid ord1 cart1 c items1 orders2 Let_def
          refused order_items_of_def)
         (simp add: settled_db_def order_items_of_def)
  qed
qed

text \<open>
  Claim C1, as the code has it. The Completion settlement has no check for an
  order that is already paid. Run a second time for the same session, from the
  store the first run left, it leaves the store that a single run leaves in every
  respect but one: the order is paid, the stock is untouched by either run, the
  cart's reservations are cleared, the payments hold the one record of the first
  run, but the order items of the cart are inserted a second time. When the
  session has a payment intent the second run moreover ends by throwing, as the
  unique index on the session id of the payments refuses its payment record.
\<close>

theorem handleCheckoutCompleted_twice:
  assumes "s_metadata_cart_id session = Some cartId"
    and "find (\<lambda>row. o_stripe_checkout_session_id row = Some (s_id session)) (orders d)
           = Some ord"
    and "find (\<lambda>c. c_id c = cartId) (carts d) = Some cart"
    and "fst (handleCheckoutCompleted enc1 d session ev1) = Inr ()"
  shows
    "handleCheckoutCompleted enc1 d session ev1
       = (Inr (), settled_db enc1 d session cartId ord, ev1) \<and>
     handleCheckoutCompleted enc2 (settled_db enc1 d session cartId ord) session ev2
       = (if payment_of (o_id ord) session = [] then Inr ()
          else Inl (UniqueViolation ''payments_checkout_session_idx''),
          (settled_db enc2 d session cartId ord)
            \<lparr>order_items := order_items d @ order_items_of d cartId ord
                              @ order_items_of d cartId ord\<rparr>,
          ev2) \<and>
     inventory (settled_db enc2 d session cartId ord) = inventory d \<and>
     payments (settled_db enc2 d session cartId ord)
       = payments (settled_db enc1 d session cartId ord) \<and>
     reservations (settled_db enc2 d session cartId ord)
       = reservations (settled_db enc1 d session cartId ord) \<and>
     reservations_of (settled_db enc1 d session cartId ord) cartId = [] \<and>
     find (\<lambda>row. o_stripe_checkout_session_id row = Some (s_id session))
       (orders (settled_db enc2 d session cartId ord)) = Some (paid_order enc2 session ord) \<and>
     o_status (paid_order enc2 session ord) = Paid \<and>
     map o_id (orders (settled_db enc2 d session cartId ord)) = map o_id (orders d)"
proof -
  let ?P = "\<lambda>row. o_stripe_checkout_session_id row = Some (s_id session)"
  let ?f = "\<lambda>row. if o_id row = o_id ord then paid_order enc2 session row else row"
  have same: "(settled_db enc1 d session cartId ord)
                \<lparr>orders := map ?f (orders d),
                 order_items := order_items d @ order_items_of d cartId ord
                                  @ order_items_of d cartId ord\<rparr>
              = (settled_db enc2 d session cartId ord)
                \<lparr>order_items := order_items d @ order_items_of d cartId ord
                                  @ order_items_of d cartId ord\<rparr>"
    by (simp add: settled_db_def)
  have "find ?P (map ?f (orders d)) = map_option ?f (find ?P (orders d))"
    by (rule find_map_same) simp
  then have found: "find ?P (orders (settled_db enc2 d session cartId ord))
                      = Some (paid_order enc2 session ord)"
    using assms(2) by (simp add: settled_db_def)
  have ids: "map o_id (orders (settled_db enc2 d session cartId ord)) = map o_id (orders d)"
    by (simp add: settled_db_def)
  show ?thesis
    using handleCheckoutCompleted_first [OF assms]
      handleCheckoutCompleted_second [OF assms(1-3), of enc2 enc1 ev2] same found ids
    by (simp add: settled_db_def reservations_of_def filter_empty_conv)
qed

theorem handleCheckoutCompleted_twice_witness:
  "s_metadata_cart_id paid_session = Some 10 \<and>
   find (\<lambda>row. o_stripe_checkout_session_id row = Some (s_id paid_session)) (orders held_shop)
     = Some pending_order \<and>
   find (\<lambda>c. c_id c = 10) (carts held_shop)
     = Some \<lparr>c_id = 10, c_session_id = ''s1'', c_status = Some Ordered, c_expires_at = 1800500\<rparr> \<and>
   fst (handleCheckoutCompleted cipher held_shop paid_session no_event) = Inr () \<and>
   handleCheckoutCompleted cipher held_shop paid_session no_event
     = (Inr (), settled_db cipher held_shop paid_session 10 pending_order, no_event) \<and>
   fst (handleCheckoutCompleted rev (settled_db cipher held_shop paid_session 10 pending_order)
          paid_session no_event)
     = Inl (UniqueViolation ''payments_checkout_session_idx'') \<and>
   inventory (settled_db rev held_shop paid_session 10 pending_order) = inventory held_shop \<and>
   length (order_items (fst (snd (handleCheckoutCompleted rev
       (settled_db cipher held_shop paid_session 10 pending_order) paid_session no_event)))) = 2"
proof -
  have a: "s_metadata_cart_id paid_session = Some 10"
    by (simp add: paid_session_def)
  have b: "find (\<lambda>row. o_stripe_checkout_session_id row = Some (s_id paid_session))
             (orders held_shop) = Some pending_order"
    by (simp add: held_shop_def pending_order_def paid_session_def)
  have c: "find (\<lambda>c. c_id c = 10) (carts held_shop)
     = Some \<lparr>c_id = 10, c_session_id = ''s1'', c_status = Some Ordered, c_expires_at = 1800500\<rparr>"
    by (simp add: held_shop_def)
  have e: "fst (handleCheckoutCompleted cipher held_shop paid_session no_event) = Inr ()"
    by (simp add: handleCheckoutCompleted_def insert_payment_def held_shop_def
        paid_session_def pending_order_def Let_def)
  have f: "payment_of (o_id pending_order) paid_session \<noteq> []"
    by (simp add: payment_of_def paid_session_def)
  have g: "length (order_items_of held_shop 10 pending_order) = 1"
    by (simp add: order_items_of_def held_shop_def)
  have h: "order_items held_shop = []"
    by (simp add: held_shop_def)
  show ?thesis
    using a b c e f g h handleCheckoutCompleted_twice [OF a b c e, of rev no_event]
    by simp
qed

text \<open>
  The claim as first stated (twice yields the state once yields, with exactly one
  set of order items) fails on \<open>held_shop\<close>: after one run the order has one order
  item, after the second run it has two.
\<close>

theorem handleCheckoutCompleted_twice_counterexample:
  "length (order_items (fst (snd (handleCheckoutCompleted cipher held_shop paid_session
       no_event)))) = 1 \<and>
   length (order_items (fst (snd (handleCheckoutCompleted cipher
       (fst (snd (handleCheckoutCompleted cipher held_shop paid_session no_event)))
       paid_session no_event)))) = 2 \<and>
   fst (snd (handleCheckoutCompleted cipher
       (fst (snd (handleCheckoutCompleted cipher held_shop paid_session no_event)))
       paid_session no_event))
     \<noteq> fst (snd (handleCheckoutCompleted cipher held_shop paid_session no_event))"
proof -
  have once: "fst (snd (handleCheckoutCompleted cipher held_shop paid_session no_event))
     = held_shop\<lparr>orders := [paid_order cipher paid_session pending_order],
                  order_items := [as_order_item 101 (hd (cart_items held_shop))],
                  payments := payment_of 101 paid_session,
                  reservations := []\<rparr>"
    by (simp add: handleCheckoutCompleted_def insert_payment_def clearReservations_def
        payment_of_def held_shop_def paid_session_def pending_order_def Let_def)
  have twice: "order_items (fst (snd (handleCheckoutCompleted cipher
        (held_shop\<lparr>orders := [paid_order cipher paid_session pending_order],
                  order_items := [as_order_item 101 (hd (cart_items held_shop))],
                  payments := payment_of 101 paid_session,
                  reservations := []\<rparr>) paid_session no_event)))
     = [as_order_item 101 (hd (cart_items held_shop)),
        as_order_item 101 (hd (cart_items held_shop))]"
    by (simp add: handleCheckoutCompleted_def insert_payment_def clearReservations_def
        payment_of_def held_shop_def paid_session_def pending_order_def paid_order_def Let_def)
  have differ: "\<And>a b :: db. length (order_items a) \<noteq> length (order_items b) \<Longrightarrow> a \<noteq> b"
    by auto
  have one: "length (order_items (fst (snd (handleCheckoutCompleted cipher held_shop
                paid_session no_event)))) = 1"
    by (simp add: once)
  have two: "length (order_items (fst (snd (handleCheckoutCompleted cipher
       (fst (snd (handleCheckoutCompleted cipher held_shop paid_session no_event)))
       paid_session no_event)))) = 2"
    by (simp add: once twice)
  show ?thesis
    using one two differ [of "fst (snd (handleCheckoutCompleted cipher
       (fst (snd (handleCheckoutCompleted cipher held_shop paid_session no_event)))
       paid_session no_event))" "fst (snd (handleCheckoutCompleted cipher held_shop paid_session
       no_event))"]
    by simp
qed

end
